theory Spec2Isabelle
  imports Complex_Main
begin

section \<open>Data model\<close>

text \<open>
  The tracker is TypeScript. Its \<open>number\<close> is modelled as \<open>real\<close>: every value is finite, so
  \<open>NaN\<close> and the infinities are outside the model. A division by zero, which gives one of
  those in the source, is outside the model too: the theorem that states the value of a
  quotient assumes its divisor positive, and the record detector only compares and subtracts
  the values it is given. Arithmetic is exact wherever a result is not rounded to an integer
  afterwards; \<open>calculateZonePercentages\<close>, whose \<open>Math.round\<close> turns the last bit of a double
  into a whole percent, computes with the operations of a \<open>DoubleArith\<close> instead.
  A \<open>Date\<close> of an activity or of a trackpoint is the integer number of milliseconds since the
  epoch (the value of \<open>getTime()\<close>). An optional field \<open>f?: T\<close> is a \<open>T option\<close>, \<open>None\<close> for
  \<open>undefined\<close>. Field names carry a prefix naming their interface (\<open>tp_\<close>, \<open>lap_\<close>, \<open>a_\<close>,
  \<open>st_\<close>, \<open>z_\<close>, \<open>zd_\<close>, \<open>zp_\<close>, \<open>pr_\<close>, \<open>dr_\<close>, \<open>ps_\<close>), since several interfaces share
  field names.
\<close>

datatype Intensity = Active | Resting

record Trackpoint =
  tp_time :: int
  tp_latitude :: "real option"
  tp_longitude :: "real option"
  tp_altitude :: "real option"
  tp_distance :: "real option"
  tp_heartRate :: "real option"
  tp_cadence :: "real option"
  tp_speed :: "real option"
  tp_power :: "real option"

record Lap =
  lap_startTime :: int
  lap_totalTimeSeconds :: real
  lap_distanceMeters :: real
  lap_maximumSpeed :: "real option"
  lap_calories :: "real option"
  lap_averageHeartRate :: "real option"
  lap_maximumHeartRate :: "real option"
  lap_intensity :: "Intensity option"
  lap_cadence :: "real option"
  lap_triggerMethod :: "string option"
  lap_trackpoints :: "Trackpoint list"

record Creator =
  cr_name :: "string option"
  cr_version :: "string option"
  cr_unitId :: "string option"
  cr_productId :: "string option"

record Activity =
  a_id :: string
  a_sport :: string
  a_startTime :: int
  a_totalTimeSeconds :: real
  a_distanceMeters :: real
  a_calories :: "real option"
  a_notes :: "string option"
  a_laps :: "Lap list"
  a_creator :: "Creator option"

record Statistics =
  st_totalDistance :: real
  st_totalTime :: real
  st_averageSpeed :: real
  st_maxSpeed :: real
  st_averageHeartRate :: "real option"
  st_maxHeartRate :: "real option"
  st_minHeartRate :: "real option"
  st_averageCadence :: "real option"
  st_maxCadence :: "real option"
  st_totalCalories :: "real option"
  st_elevationGain :: "real option"
  st_elevationLoss :: "real option"
  st_minAltitude :: "real option"
  st_maxAltitude :: "real option"
  st_averagePace :: "real option"
  st_maxPace :: "real option"

text \<open>\<open>ZoneNumber = 1 | 2 | 3 | 4 | 5\<close>.\<close>

datatype ZoneNumber = Zone1 | Zone2 | Zone3 | Zone4 | Zone5

record HeartRateZone =
  z_zone :: ZoneNumber
  z_name :: string
  z_description :: string
  z_minHR :: real
  z_maxHR :: real
  z_minPercent :: real
  z_maxPercent :: real
  z_color :: string
  z_benefits :: "string list"
  z_recommendations :: string

record ZoneDistribution =
  zd_zone1 :: real
  zd_zone2 :: real
  zd_zone3 :: real
  zd_zone4 :: real
  zd_zone5 :: real
  zd_unknown :: real

record ZonePercentages =
  zp_zone1 :: real
  zp_zone2 :: real
  zp_zone3 :: real
  zp_zone4 :: real
  zp_zone5 :: real
  zp_unknown :: real

datatype TrainingType = Recovery | Endurance | Tempo | Threshold | Interval | Mixed | Unknown

text \<open>
  Reading a field of \<open>undefined\<close> throws a \<open>TypeError\<close>; it is the only exception the modelled
  functions can raise.
\<close>

datatype js_error = TypeError

section \<open>Training-zone classifier\<close>

text \<open>\<open>Math.round\<close>: the nearest integer, a half rounded towards plus infinity.\<close>

definition Math_round :: "real \<Rightarrow> real" where
  "Math_round x = of_int \<lfloor>x + 1 / 2\<rfloor>"

text \<open>
  \<open>getZoneForHeartRate\<close>: the \<open>for ... of\<close> loop returns the number of the first zone whose band
  holds the heart rate; after the loop \<open>zones[4]\<close> and then \<open>zones[0]\<close> are read, and reading
  \<open>maxHR\<close> or \<open>minHR\<close> of a missing element throws.
\<close>

definition inBand :: "real \<Rightarrow> HeartRateZone \<Rightarrow> bool" where
  "inBand heartRate z \<longleftrightarrow> heartRate \<ge> z_minHR z \<and> heartRate \<le> z_maxHR z"

definition getZoneForHeartRate :: "real \<Rightarrow> HeartRateZone list \<Rightarrow> js_error + ZoneNumber option" where
  "getZoneForHeartRate heartRate zones =
     (case List.find (inBand heartRate) zones of
        Some z \<Rightarrow> Inr (Some (z_zone z))
      | None \<Rightarrow>
          if length zones \<le> 4 then Inl TypeError
          else if heartRate > z_maxHR (zones ! 4) then Inr (Some Zone5)
          else if heartRate < z_minHR (zones ! 0) then Inr (Some Zone1)
          else Inr None)"

text \<open>
  \<open>calculateTimeInZones\<close>, first loop: inside each lap, every trackpoint that has a successor
  gives one entry, with the heart rate of the trackpoint itself and the seconds to its successor.
\<close>

record Interval =
  iv_hr :: "real option"
  iv_duration :: real

fun lapIntervals :: "Trackpoint list \<Rightarrow> Interval list" where
  "lapIntervals (current # next # rest) =
     \<lparr>iv_hr = tp_heartRate current,
      iv_duration = real_of_int (tp_time next - tp_time current) / 1000\<rparr>
     # lapIntervals (next # rest)"
| "lapIntervals _ = []"

definition collectIntervals :: "Activity \<Rightarrow> Interval list" where
  "collectIntervals activity = concat (map (\<lambda>lap. lapIntervals (lap_trackpoints lap)) (a_laps activity))"

text \<open>The assignment \<open>distribution[`zone${zone}`] += duration\<close>.\<close>

fun addToZone :: "ZoneNumber \<Rightarrow> real \<Rightarrow> ZoneDistribution \<Rightarrow> ZoneDistribution" where
  "addToZone Zone1 duration d = d\<lparr>zd_zone1 := zd_zone1 d + duration\<rparr>"
| "addToZone Zone2 duration d = d\<lparr>zd_zone2 := zd_zone2 d + duration\<rparr>"
| "addToZone Zone3 duration d = d\<lparr>zd_zone3 := zd_zone3 d + duration\<rparr>"
| "addToZone Zone4 duration d = d\<lparr>zd_zone4 := zd_zone4 d + duration\<rparr>"
| "addToZone Zone5 duration d = d\<lparr>zd_zone5 := zd_zone5 d + duration\<rparr>"

definition addToUnknown :: "real \<Rightarrow> ZoneDistribution \<Rightarrow> ZoneDistribution" where
  "addToUnknown duration d = d\<lparr>zd_unknown := zd_unknown d + duration\<rparr>"

text \<open>
  The body of the second loop. \<open>!hr\<close> holds for a missing heart rate and for the heart rate 0.
\<close>

definition classifyInterval :: "HeartRateZone list \<Rightarrow> ZoneDistribution \<Rightarrow> Interval \<Rightarrow> js_error + ZoneDistribution" where
  "classifyInterval zones d iv =
     (case iv_hr iv of
        None \<Rightarrow> Inr (addToUnknown (iv_duration iv) d)
      | Some hr \<Rightarrow>
          if hr = 0 then Inr (addToUnknown (iv_duration iv) d)
          else (case getZoneForHeartRate hr zones of
                  Inl e \<Rightarrow> Inl e
                | Inr None \<Rightarrow> Inr (addToUnknown (iv_duration iv) d)
                | Inr (Some zone) \<Rightarrow> Inr (addToZone zone (iv_duration iv) d)))"

fun classifyAll :: "HeartRateZone list \<Rightarrow> Interval list \<Rightarrow> ZoneDistribution \<Rightarrow> js_error + ZoneDistribution" where
  "classifyAll zones [] d = Inr d"
| "classifyAll zones (iv # ivs) d =
     (case classifyInterval zones d iv of
        Inl e \<Rightarrow> Inl e
      | Inr d' \<Rightarrow> classifyAll zones ivs d')"

definition emptyDistribution :: ZoneDistribution where
  "emptyDistribution =
     \<lparr>zd_zone1 = 0, zd_zone2 = 0, zd_zone3 = 0, zd_zone4 = 0, zd_zone5 = 0, zd_unknown = 0\<rparr>"

definition calculateTimeInZones :: "Activity \<Rightarrow> HeartRateZone list \<Rightarrow> js_error + ZoneDistribution" where
  "calculateTimeInZones activity zones =
     classifyAll zones (collectIntervals activity) emptyDistribution"

text \<open>
  The addition, division and multiplication of doubles, as the machine performs them: each
  gives the double nearest to the exact result. They are a parameter of the functions that
  round their result to an integer; what the theorems assume of them is \<open>doubleArith\<close> below.
\<close>

record DoubleArith =
  fadd :: "real \<Rightarrow> real \<Rightarrow> real"
  fdiv :: "real \<Rightarrow> real \<Rightarrow> real"
  fmul :: "real \<Rightarrow> real \<Rightarrow> real"

text \<open>
  \<open>calculateZonePercentages\<close>: \<open>Object.values(distribution).reduce(...)\<close> adds the six fields to
  0 in the order of the object literal; each percentage is
  \<open>Math.round((time / total) * 100)\<close>, and nothing makes the six sum to 100.
\<close>

definition distributionTotal :: "DoubleArith \<Rightarrow> ZoneDistribution \<Rightarrow> real" where
  "distributionTotal fp d =
     fadd fp (fadd fp (fadd fp (fadd fp (fadd fp (fadd fp 0 (zd_zone1 d)) (zd_zone2 d))
       (zd_zone3 d)) (zd_zone4 d)) (zd_zone5 d)) (zd_unknown d)"

definition calculateZonePercentages :: "DoubleArith \<Rightarrow> ZoneDistribution \<Rightarrow> ZonePercentages" where
  "calculateZonePercentages fp d =
     (let total = distributionTotal fp d in
      if total = 0 then
        \<lparr>zp_zone1 = 0, zp_zone2 = 0, zp_zone3 = 0, zp_zone4 = 0, zp_zone5 = 0, zp_unknown = 0\<rparr>
      else
        \<lparr>zp_zone1 = Math_round (fmul fp (fdiv fp (zd_zone1 d) total) 100),
         zp_zone2 = Math_round (fmul fp (fdiv fp (zd_zone2 d) total) 100),
         zp_zone3 = Math_round (fmul fp (fdiv fp (zd_zone3 d) total) 100),
         zp_zone4 = Math_round (fmul fp (fdiv fp (zd_zone4 d) total) 100),
         zp_zone5 = Math_round (fmul fp (fdiv fp (zd_zone5 d) total) 100),
         zp_unknown = Math_round (fmul fp (fdiv fp (zd_unknown d) total) 100)\<rparr>)"

text \<open>
  \<open>getDominantZone\<close>: \<open>reduce\<close> without an initial value starts from the first element and keeps
  the running maximum unless the current element is strictly larger.
\<close>

definition pickLarger :: "ZoneNumber \<times> real \<Rightarrow> ZoneNumber \<times> real \<Rightarrow> ZoneNumber \<times> real" where
  "pickLarger mx current = (if snd current > snd mx then current else mx)"

definition getDominantZone :: "ZoneDistribution \<Rightarrow> ZoneNumber option" where
  "getDominantZone d =
     (let maxZone = foldl pickLarger (Zone1, zd_zone1 d)
                      [(Zone2, zd_zone2 d), (Zone3, zd_zone3 d), (Zone4, zd_zone4 d), (Zone5, zd_zone5 d)]
      in if snd maxZone > 0 then Some (fst maxZone) else None)"

definition determineTrainingType :: "ZonePercentages \<Rightarrow> TrainingType" where
  "determineTrainingType p =
     (if zp_zone1 p + zp_zone2 p > 60 \<and> zp_zone1 p > zp_zone2 p then Recovery
      else if zp_zone2 p + zp_zone3 p > 70 \<and> zp_zone2 p > zp_zone3 p then Endurance
      else if zp_zone3 p + zp_zone4 p > 50 \<and> zp_zone3 p > zp_zone4 p then Tempo
      else if zp_zone4 p > 40 then Threshold
      else if zp_zone5 p > 20 \<or> (zp_zone4 p + zp_zone5 p > 50 \<and> zp_zone5 p > 15) then Interval
      else if zp_unknown p < 50 then Mixed
      else Unknown)"

section \<open>Statistics engine\<close>

text \<open>
  \<open>Math.max(...xs)\<close> and \<open>Math.min(...xs)\<close>. With no argument JavaScript gives an infinity, which
  is no real number: \<open>None\<close>.
\<close>

fun Math_max :: "real list \<Rightarrow> real option" where
  "Math_max [] = None"
| "Math_max (x # xs) = Some (fold max xs x)"

fun Math_min :: "real list \<Rightarrow> real option" where
  "Math_min [] = None"
| "Math_min (x # xs) = Some (fold min xs x)"

text \<open>\<open>xs.reduce((sum, x) => sum + x, 0)\<close>.\<close>

definition sumReduce :: "real list \<Rightarrow> real" where
  "sumReduce xs = foldl (+) 0 xs"

text \<open>
  The elevation loop of \<open>calculateStatistics\<close>: from the second altitude on, the difference to the
  altitude before it goes to the gain when positive and to the loss otherwise.
\<close>

fun elevationLoop :: "real list \<Rightarrow> real \<times> real \<Rightarrow> real \<times> real" where
  "elevationLoop (previous # current # rest) (gain, loss) =
     (let diff = current - previous in
      if diff > 0 then elevationLoop (current # rest) (gain + diff, loss)
      else elevationLoop (current # rest) (gain, loss + \<bar>diff\<bar>))"
| "elevationLoop _ acc = acc"

text \<open>\<open>lap.maximumSpeed || 0\<close>.\<close>

definition lapMaxSpeedOrZero :: "Lap \<Rightarrow> real" where
  "lapMaxSpeedOrZero lap = (case lap_maximumSpeed lap of None \<Rightarrow> 0 | Some v \<Rightarrow> v)"

text \<open>
  \<open>calculateStatistics\<close>. The object returned for an activity without trackpoints has five
  fields only; the others are absent. Both calls of \<open>Math.max\<close> that fill \<open>maxSpeed\<close> have an
  argument: the first is guarded by \<open>speeds.length > 0\<close>, and past the early return there is a
  trackpoint, hence a lap (\<open>trackpoints_have_lap\<close> below). Their branches for no argument are
  never reached and are given the value 0.
\<close>

definition calculateStatistics :: "Activity \<Rightarrow> Statistics" where
  "calculateStatistics activity =
     (let allTrackpoints = concat (map lap_trackpoints (a_laps activity)) in
      if length allTrackpoints = 0 then
        \<lparr>st_totalDistance = a_distanceMeters activity,
         st_totalTime = a_totalTimeSeconds activity,
         st_averageSpeed = a_distanceMeters activity / a_totalTimeSeconds activity,
         st_maxSpeed = 0,
         st_averageHeartRate = None, st_maxHeartRate = None, st_minHeartRate = None,
         st_averageCadence = None, st_maxCadence = None,
         st_totalCalories = a_calories activity,
         st_elevationGain = None, st_elevationLoss = None,
         st_minAltitude = None, st_maxAltitude = None,
         st_averagePace = None, st_maxPace = None\<rparr>
      else
        let heartRates = List.map_filter tp_heartRate allTrackpoints;
            averageHeartRate =
              (if length heartRates > 0 then Some (sumReduce heartRates / real (length heartRates))
               else None);
            maxHeartRate = (if length heartRates > 0 then Math_max heartRates else None);
            minHeartRate = (if length heartRates > 0 then Math_min heartRates else None);
            cadences = List.map_filter tp_cadence allTrackpoints;
            averageCadence =
              (if length cadences > 0 then Some (sumReduce cadences / real (length cadences))
               else None);
            maxCadence = (if length cadences > 0 then Math_max cadences else None);
            altitudes = List.map_filter tp_altitude allTrackpoints;
            (elevationGain, elevationLoss) = elevationLoop altitudes (0, 0);
            minAltitude = (if length altitudes > 0 then Math_min altitudes else None);
            maxAltitude = (if length altitudes > 0 then Math_max altitudes else None);
            speeds = filter (\<lambda>s. s > 0) (List.map_filter tp_speed allTrackpoints);
            (maxSpeed, averageSpeed) =
              (if length speeds > 0 then
                 ((case Math_max speeds of Some m \<Rightarrow> m | None \<Rightarrow> 0),
                  sumReduce speeds / real (length speeds))
               else
                 ((case Math_max (map lapMaxSpeedOrZero (a_laps activity)) of
                     Some m \<Rightarrow> m | None \<Rightarrow> 0),
                  a_distanceMeters activity / a_totalTimeSeconds activity));
            averagePace = (if averageSpeed > 0 then Some (1000 / (averageSpeed * 60)) else None);
            maxPace = (if maxSpeed > 0 then Some (1000 / (maxSpeed * 60)) else None)
        in
        \<lparr>st_totalDistance = a_distanceMeters activity,
         st_totalTime = a_totalTimeSeconds activity,
         st_averageSpeed = averageSpeed,
         st_maxSpeed = maxSpeed,
         st_averageHeartRate = averageHeartRate,
         st_maxHeartRate = maxHeartRate,
         st_minHeartRate = minHeartRate,
         st_averageCadence = averageCadence,
         st_maxCadence = maxCadence,
         st_totalCalories = a_calories activity,
         st_elevationGain = (if elevationGain > 0 then Some elevationGain else None),
         st_elevationLoss = (if elevationLoss > 0 then Some elevationLoss else None),
         st_minAltitude = minAltitude,
         st_maxAltitude = maxAltitude,
         st_averagePace = averagePace,
         st_maxPace = maxPace\<rparr>)"

section \<open>Personal-record detector\<close>

datatype RecordType = Distance | Speed | Pace | Time | Elevation | Calories | HeartRate

text \<open>
  \<open>RecordCategory\<close>: the strings \<open>'1km'\<close>, \<open>'5km'\<close>, \<open>'10km'\<close>, \<open>'halfMarathon'\<close>, \<open>'marathon'\<close>,
  \<open>'longest'\<close>, \<open>'fastest'\<close>, \<open>'highest'\<close>.
\<close>

datatype RecordCategory =
  Cat_1km | Cat_5km | Cat_10km | HalfMarathon | Marathon | Longest | Fastest | Highest

record PersonalRecord =
  pr_id :: string
  pr_type :: RecordType
  pr_category :: RecordCategory
  pr_value :: real
  pr_unit :: string
  pr_activityId :: string
  pr_activityDate :: int
  pr_sport :: string
  pr_previousValue :: "real option"
  pr_previousActivityId :: "string option"
  pr_previousDate :: "int option"
  pr_improvement :: "real option"
  pr_createdAt :: int
  pr_isNew :: "bool option"

text \<open>
  \<open>RecordDetectionResult\<close>. Its \<open>message\<close>, a sentence for display built with \<open>toFixed\<close>, is not
  modelled: nothing in the detector reads it.
\<close>

record RecordDetectionResult =
  dr_isRecord :: bool
  dr_recordType :: "RecordType option"
  dr_category :: "RecordCategory option"
  dr_value :: "real option"
  dr_previousValue :: "real option"
  dr_improvement :: "real option"

record DistanceBand =
  band_min :: real
  band_max :: real
  band_label :: string

text \<open>\<open>DISTANCE_CATEGORIES\<close>, in the order \<open>Object.entries\<close> lists its keys.\<close>

definition DISTANCE_CATEGORIES :: "(RecordCategory \<times> DistanceBand) list" where
  "DISTANCE_CATEGORIES =
     [(Cat_1km, \<lparr>band_min = 900, band_max = 1100, band_label = ''1 km''\<rparr>),
      (Cat_5km, \<lparr>band_min = 4500, band_max = 5500, band_label = ''5 km''\<rparr>),
      (Cat_10km, \<lparr>band_min = 9500, band_max = 10500, band_label = ''10 km''\<rparr>),
      (HalfMarathon, \<lparr>band_min = 20000, band_max = 22000, band_label = ''Semi-marathon''\<rparr>),
      (Marathon, \<lparr>band_min = 41000, band_max = 43000, band_label = ''Marathon''\<rparr>)]"

text \<open>
  Every pass looks its prior record up with \<open>existingRecords.find(...)\<close>, the first record of the
  list that matches, and pushes at most one result per lookup.
\<close>

definition detectDistanceRecords :: "Activity \<Rightarrow> PersonalRecord list \<Rightarrow> RecordDetectionResult list" where
  "detectDistanceRecords activity existingRecords =
     (let distance = a_distanceMeters activity;
          longestRecord = List.find (\<lambda>r. pr_type r = Distance \<and> pr_category r = Longest
                                        \<and> pr_sport r = a_sport activity) existingRecords
      in case longestRecord of
           None \<Rightarrow>
             [\<lparr>dr_isRecord = True, dr_recordType = Some Distance, dr_category = Some Longest,
               dr_value = Some distance, dr_previousValue = None,
               dr_improvement = Some distance\<rparr>]
         | Some r \<Rightarrow>
             if distance > pr_value r then
               [\<lparr>dr_isRecord = True, dr_recordType = Some Distance, dr_category = Some Longest,
                 dr_value = Some distance, dr_previousValue = Some (pr_value r),
                 dr_improvement = Some (distance - pr_value r)\<rparr>]
             else [])"

definition detectSpeedRecords :: "Activity \<Rightarrow> PersonalRecord list \<Rightarrow> RecordDetectionResult list" where
  "detectSpeedRecords activity existingRecords =
     (let stats = calculateStatistics activity;
          speedRecord = List.find (\<lambda>r. pr_type r = Speed \<and> pr_category r = Fastest
                                      \<and> pr_sport r = a_sport activity) existingRecords;
          fastest =
            (case speedRecord of
               None \<Rightarrow>
                 [\<lparr>dr_isRecord = True, dr_recordType = Some Speed, dr_category = Some Fastest,
                   dr_value = Some (st_maxSpeed stats), dr_previousValue = None,
                   dr_improvement = Some (st_maxSpeed stats)\<rparr>]
             | Some r \<Rightarrow>
                 if st_maxSpeed stats > pr_value r then
                   [\<lparr>dr_isRecord = True, dr_recordType = Some Speed, dr_category = Some Fastest,
                     dr_value = Some (st_maxSpeed stats), dr_previousValue = Some (pr_value r),
                     dr_improvement = Some (st_maxSpeed stats - pr_value r)\<rparr>]
                 else []);
          avgSpeedRecord = List.find (\<lambda>r. pr_type r = Speed \<and> pr_category r = Cat_10km
                                         \<and> pr_sport r = a_sport activity) existingRecords;
          average10km =
            (if a_distanceMeters activity \<ge> 9500 \<and> a_distanceMeters activity \<le> 10500 then
               (case avgSpeedRecord of
                  None \<Rightarrow>
                    [\<lparr>dr_isRecord = True, dr_recordType = Some Speed, dr_category = Some Cat_10km,
                      dr_value = Some (st_averageSpeed stats), dr_previousValue = None,
                      dr_improvement = Some (st_averageSpeed stats)\<rparr>]
                | Some r \<Rightarrow>
                    if st_averageSpeed stats > pr_value r then
                      [\<lparr>dr_isRecord = True, dr_recordType = Some Speed, dr_category = Some Cat_10km,
                        dr_value = Some (st_averageSpeed stats), dr_previousValue = Some (pr_value r),
                        dr_improvement = Some (st_averageSpeed stats - pr_value r)\<rparr>]
                    else [])
             else [])
      in fastest @ average10km)"

text \<open>
  \<open>detectTimeRecords\<close>: the body of the \<open>forEach\<close> over the distance bands, then the loop. For a
  time, smaller is better, and a first record of a band has the improvement 0.
\<close>

definition timeRecordForBand :: "Activity \<Rightarrow> PersonalRecord list \<Rightarrow> RecordCategory \<times> DistanceBand \<Rightarrow> RecordDetectionResult list" where
  "timeRecordForBand activity existingRecords entry =
     (let distance = a_distanceMeters activity;
          time = a_totalTimeSeconds activity;
          category = fst entry;
          band = snd entry
      in if distance \<ge> band_min band \<and> distance \<le> band_max band then
           (case List.find (\<lambda>r. pr_type r = Time \<and> pr_category r = category
                                 \<and> pr_sport r = a_sport activity) existingRecords of
              None \<Rightarrow>
                [\<lparr>dr_isRecord = True, dr_recordType = Some Time, dr_category = Some category,
                  dr_value = Some time, dr_previousValue = None, dr_improvement = Some 0\<rparr>]
            | Some r \<Rightarrow>
                if time < pr_value r then
                  [\<lparr>dr_isRecord = True, dr_recordType = Some Time, dr_category = Some category,
                    dr_value = Some time, dr_previousValue = Some (pr_value r),
                    dr_improvement = Some (pr_value r - time)\<rparr>]
                else [])
         else [])"

definition detectTimeRecords :: "Activity \<Rightarrow> PersonalRecord list \<Rightarrow> RecordDetectionResult list" where
  "detectTimeRecords activity existingRecords =
     concat (map (timeRecordForBand activity existingRecords) DISTANCE_CATEGORIES)"

text \<open>\<open>!stats.elevationGain\<close> holds for an absent gain and for the gain 0.\<close>

definition detectElevationRecords :: "Activity \<Rightarrow> PersonalRecord list \<Rightarrow> RecordDetectionResult list" where
  "detectElevationRecords activity existingRecords =
     (let stats = calculateStatistics activity in
      case st_elevationGain stats of
        None \<Rightarrow> []
      | Some elevationGain \<Rightarrow>
          if elevationGain = 0 then []
          else
            (case List.find (\<lambda>r. pr_type r = Elevation \<and> pr_category r = Highest
                                  \<and> pr_sport r = a_sport activity) existingRecords of
               None \<Rightarrow>
                 [\<lparr>dr_isRecord = True, dr_recordType = Some Elevation, dr_category = Some Highest,
                   dr_value = Some elevationGain, dr_previousValue = None,
                   dr_improvement = Some elevationGain\<rparr>]
             | Some r \<Rightarrow>
                 if elevationGain > pr_value r then
                   [\<lparr>dr_isRecord = True, dr_recordType = Some Elevation, dr_category = Some Highest,
                     dr_value = Some elevationGain, dr_previousValue = Some (pr_value r),
                     dr_improvement = Some (elevationGain - pr_value r)\<rparr>]
                 else []))"

text \<open>The lookup of the calorie pass compares type and sport only, no category.\<close>

definition detectCalorieRecords :: "Activity \<Rightarrow> PersonalRecord list \<Rightarrow> RecordDetectionResult list" where
  "detectCalorieRecords activity existingRecords =
     (case a_calories activity of
        None \<Rightarrow> []
      | Some calories \<Rightarrow>
          if calories = 0 then []
          else
            (case List.find (\<lambda>r. pr_type r = Calories \<and> pr_sport r = a_sport activity)
                    existingRecords of
               None \<Rightarrow>
                 [\<lparr>dr_isRecord = True, dr_recordType = Some Calories, dr_category = Some Longest,
                   dr_value = Some calories, dr_previousValue = None,
                   dr_improvement = Some calories\<rparr>]
             | Some r \<Rightarrow>
                 if calories > pr_value r then
                   [\<lparr>dr_isRecord = True, dr_recordType = Some Calories, dr_category = Some Longest,
                     dr_value = Some calories, dr_previousValue = Some (pr_value r),
                     dr_improvement = Some (calories - pr_value r)\<rparr>]
                 else []))"

definition detectRecords :: "Activity \<Rightarrow> PersonalRecord list \<Rightarrow> RecordDetectionResult list" where
  "detectRecords activity existingRecords =
     filter dr_isRecord
       (detectDistanceRecords activity existingRecords
        @ detectSpeedRecords activity existingRecords
        @ detectTimeRecords activity existingRecords
        @ detectElevationRecords activity existingRecords
        @ detectCalorieRecords activity existingRecords)"

fun getUnitForRecordType :: "RecordType \<Rightarrow> string" where
  "getUnitForRecordType Distance = ''m''"
| "getUnitForRecordType Speed = ''m/s''"
| "getUnitForRecordType Pace = ''min/km''"
| "getUnitForRecordType Time = ''s''"
| "getUnitForRecordType Elevation = ''m''"
| "getUnitForRecordType Calories = ''kcal''"
| "getUnitForRecordType HeartRate = ''bpm''"

text \<open>The strings a template literal writes for a record type and for a category.\<close>

fun recordTypeString :: "RecordType \<Rightarrow> string" where
  "recordTypeString Distance = ''distance''"
| "recordTypeString Speed = ''speed''"
| "recordTypeString Pace = ''pace''"
| "recordTypeString Time = ''time''"
| "recordTypeString Elevation = ''elevation''"
| "recordTypeString Calories = ''calories''"
| "recordTypeString HeartRate = ''heartRate''"

fun categoryString :: "RecordCategory \<Rightarrow> string" where
  "categoryString Cat_1km = ''1km''"
| "categoryString Cat_5km = ''5km''"
| "categoryString Cat_10km = ''10km''"
| "categoryString HalfMarathon = ''halfMarathon''"
| "categoryString Marathon = ''marathon''"
| "categoryString Longest = ''longest''"
| "categoryString Fastest = ''fastest''"
| "categoryString Highest = ''highest''"

text \<open>
  \<open>createRecordFromDetection\<close>. \<open>new Date()\<close> is the argument \<open>now\<close>. The source asserts with
  \<open>!\<close> that the detection has its record type, category and value; a detection that lacks one
  is outside what the function is written for, and the model gives \<open>None\<close> for it.
\<close>

definition createRecordFromDetection :: "int \<Rightarrow> RecordDetectionResult \<Rightarrow> Activity \<Rightarrow> PersonalRecord option" where
  "createRecordFromDetection now detection activity =
     (case (dr_recordType detection, dr_category detection, dr_value detection) of
        (Some recordType, Some category, Some v) \<Rightarrow>
          Some \<lparr>pr_id = a_id activity @ ''-'' @ recordTypeString recordType @ ''-'' @ categoryString category,
                pr_type = recordType,
                pr_category = category,
                pr_value = v,
                pr_unit = getUnitForRecordType recordType,
                pr_activityId = a_id activity,
                pr_activityDate = a_startTime activity,
                pr_sport = a_sport activity,
                pr_previousValue = dr_previousValue detection,
                pr_previousActivityId = None,
                pr_previousDate = None,
                pr_improvement = dr_improvement detection,
                pr_createdAt = now,
                pr_isNew = Some True\<rparr>
      | _ \<Rightarrow> None)"

section \<open>Period aggregator\<close>

datatype PeriodType = Week | Month | Year | Custom | All

text \<open>
  The bounds of a period are \<open>Date\<close> objects that the aggregator builds itself, and
  \<open>new Date(Math.min(...[]))\<close> is an invalid one; a comparison with an invalid date is false.
\<close>

datatype JSDate = Date int | Invalid_Date

fun dateGE :: "JSDate \<Rightarrow> JSDate \<Rightarrow> bool" where
  "dateGE (Date x) (Date y) = (x \<ge> y)"
| "dateGE _ _ = False"

fun dateLE :: "JSDate \<Rightarrow> JSDate \<Rightarrow> bool" where
  "dateLE (Date x) (Date y) = (x \<le> y)"
| "dateLE _ _ = False"

record DateRange =
  rng_start :: JSDate
  rng_end :: JSDate

record SportEntry =
  se_count :: real
  se_distance :: real
  se_time :: real

record PeriodStatistics =
  ps_period :: PeriodType
  ps_dateRange :: DateRange
  ps_totalActivities :: real
  ps_totalDistance :: real
  ps_totalTime :: real
  ps_totalCalories :: real
  ps_totalElevationGain :: real
  ps_averageSpeed :: real
  ps_averageHeartRate :: "real option"
  ps_averageCadence :: "real option"
  ps_sportBreakdown :: "string \<Rightarrow> SportEntry option"

record Changes =
  ch_distance :: real
  ch_time :: real
  ch_activities :: real
  ch_speed :: real

record ComparisonData =
  cd_current :: PeriodStatistics
  cd_previous :: PeriodStatistics
  cd_changes :: Changes

text \<open>
  The calendar functions come from the library \<open>date-fns\<close>, which is not part of the repository:
  they are a parameter of the model. \<open>startOfWeek\<close> and \<open>endOfWeek\<close> stand for the calls with
  \<open>weekStartsOn: 1\<close>, and \<open>subWeeks\<close>, \<open>subMonths\<close>, \<open>subYears\<close> for the calls that subtract 1.
\<close>

record DateFns =
  startOfWeek :: "JSDate \<Rightarrow> JSDate"
  endOfWeek :: "JSDate \<Rightarrow> JSDate"
  startOfMonth :: "JSDate \<Rightarrow> JSDate"
  endOfMonth :: "JSDate \<Rightarrow> JSDate"
  startOfYear :: "JSDate \<Rightarrow> JSDate"
  endOfYear :: "JSDate \<Rightarrow> JSDate"
  subWeeks :: "JSDate \<Rightarrow> JSDate"
  subMonths :: "JSDate \<Rightarrow> JSDate"
  subYears :: "JSDate \<Rightarrow> JSDate"

definition getWeekBounds :: "DateFns \<Rightarrow> JSDate \<Rightarrow> DateRange" where
  "getWeekBounds lib date = \<lparr>rng_start = startOfWeek lib date, rng_end = endOfWeek lib date\<rparr>"

definition getMonthBounds :: "DateFns \<Rightarrow> JSDate \<Rightarrow> DateRange" where
  "getMonthBounds lib date = \<lparr>rng_start = startOfMonth lib date, rng_end = endOfMonth lib date\<rparr>"

definition getYearBounds :: "DateFns \<Rightarrow> JSDate \<Rightarrow> DateRange" where
  "getYearBounds lib date = \<lparr>rng_start = startOfYear lib date, rng_end = endOfYear lib date\<rparr>"

fun getPreviousPeriodBounds :: "DateFns \<Rightarrow> PeriodType \<Rightarrow> JSDate \<Rightarrow> DateRange" where
  "getPreviousPeriodBounds lib Week currentDate = getWeekBounds lib (subWeeks lib currentDate)"
| "getPreviousPeriodBounds lib Month currentDate = getMonthBounds lib (subMonths lib currentDate)"
| "getPreviousPeriodBounds lib Year currentDate = getYearBounds lib (subYears lib currentDate)"
| "getPreviousPeriodBounds lib _ currentDate = getWeekBounds lib (subWeeks lib currentDate)"

definition filterActivitiesByDateRange :: "Activity list \<Rightarrow> DateRange \<Rightarrow> Activity list" where
  "filterActivitiesByDateRange activities dateRange =
     filter (\<lambda>activity.
               let activityDate = Date (a_startTime activity) in
               dateGE activityDate (rng_start dateRange) \<and> dateLE activityDate (rng_end dateRange))
       activities"

text \<open>
  \<open>sportBreakdown\<close> is a plain object \<open>{}\<close>: besides the keys the loop gives it, a lookup
  finds the properties it inherits from \<open>Object.prototype\<close>. The model keeps its own keys.
\<close>

definition inheritedKeys :: "string list" where
  "inheritedKeys =
     [''constructor'', ''__defineGetter__'', ''__defineSetter__'', ''hasOwnProperty'',
      ''__lookupGetter__'', ''__lookupSetter__'', ''isPrototypeOf'', ''propertyIsEnumerable'',
      ''toString'', ''valueOf'', ''__proto__'', ''toLocaleString'']"

text \<open>
  The body of the loop that fills \<open>sportBreakdown\<close>. For a sport named like an inherited
  property, \<open>!sportBreakdown[activity.sport]\<close> is false, since the inherited value is an object:
  no entry is made, and the three counters are written on that inherited object, not on the
  breakdown.
\<close>

definition addToBreakdown :: "(string \<Rightarrow> SportEntry option) \<Rightarrow> Activity \<Rightarrow> (string \<Rightarrow> SportEntry option)" where
  "addToBreakdown sportBreakdown activity =
     (case sportBreakdown (a_sport activity) of
        Some entry \<Rightarrow>
          sportBreakdown(a_sport activity \<mapsto>
            \<lparr>se_count = se_count entry + 1,
             se_distance = se_distance entry + a_distanceMeters activity,
             se_time = se_time entry + a_totalTimeSeconds activity\<rparr>)
      | None \<Rightarrow>
          if a_sport activity \<in> set inheritedKeys then sportBreakdown
          else
            sportBreakdown(a_sport activity \<mapsto>
              \<lparr>se_count = 0 + 1,
               se_distance = 0 + a_distanceMeters activity,
               se_time = 0 + a_totalTimeSeconds activity\<rparr>))"

text \<open>
  The body of the loop for heart rate and cadence, on the accumulators
  \<open>(totalHR, hrCount, totalCadence, cadenceCount)\<close>. An average that is absent or 0 is skipped.
\<close>

definition addAverages :: "real \<times> real \<times> real \<times> real \<Rightarrow> Activity \<Rightarrow> real \<times> real \<times> real \<times> real" where
  "addAverages acc activity =
     (case acc of (totalHR, hrCount, totalCadence, cadenceCount) \<Rightarrow>
        let stats = calculateStatistics activity;
            (totalHR', hrCount') =
              (case st_averageHeartRate stats of
                 None \<Rightarrow> (totalHR, hrCount)
               | Some v \<Rightarrow> if v = 0 then (totalHR, hrCount) else (totalHR + v, hrCount + 1));
            (totalCadence', cadenceCount') =
              (case st_averageCadence stats of
                 None \<Rightarrow> (totalCadence, cadenceCount)
               | Some v \<Rightarrow> if v = 0 then (totalCadence, cadenceCount)
                           else (totalCadence + v, cadenceCount + 1))
        in (totalHR', hrCount', totalCadence', cadenceCount'))"

definition orZero :: "real option \<Rightarrow> real" where
  "orZero v = (case v of None \<Rightarrow> 0 | Some x \<Rightarrow> x)"

definition aggregateActivities :: "Activity list \<Rightarrow> PeriodType \<Rightarrow> DateRange \<Rightarrow> PeriodStatistics" where
  "aggregateActivities activities period dateRange =
     (let totalDistance = foldl (\<lambda>sum a. sum + a_distanceMeters a) 0 activities;
          totalTime = foldl (\<lambda>sum a. sum + a_totalTimeSeconds a) 0 activities;
          totalCalories = foldl (\<lambda>sum a. sum + orZero (a_calories a)) 0 activities;
          totalElevationGain =
            foldl (\<lambda>total a. total + orZero (st_elevationGain (calculateStatistics a))) 0 activities;
          (totalHR, hrCount, totalCadence, cadenceCount) = foldl addAverages (0, 0, 0, 0) activities;
          sportBreakdown = foldl addToBreakdown (\<lambda>sport. None) activities
      in \<lparr>ps_period = period,
          ps_dateRange = dateRange,
          ps_totalActivities = real (length activities),
          ps_totalDistance = totalDistance,
          ps_totalTime = totalTime,
          ps_totalCalories = totalCalories,
          ps_totalElevationGain = totalElevationGain,
          ps_averageSpeed = (if totalTime > 0 then totalDistance / totalTime else 0),
          ps_averageHeartRate = (if hrCount > 0 then Some (totalHR / hrCount) else None),
          ps_averageCadence = (if cadenceCount > 0 then Some (totalCadence / cadenceCount) else None),
          ps_sportBreakdown = sportBreakdown\<rparr>)"

text \<open>\<open>new Date(Math.min(...ts))\<close> and \<open>new Date(Math.max(...ts))\<close> on the start times.\<close>

fun earliest :: "int list \<Rightarrow> JSDate" where
  "earliest [] = Invalid_Date"
| "earliest (t # ts) = Date (fold min ts t)"

fun latest :: "int list \<Rightarrow> JSDate" where
  "latest [] = Invalid_Date"
| "latest (t # ts) = Date (fold max ts t)"

definition calculatePeriodStats :: "DateFns \<Rightarrow> Activity list \<Rightarrow> PeriodType \<Rightarrow> JSDate \<Rightarrow> PeriodStatistics" where
  "calculatePeriodStats lib activities period date =
     (let dateRange =
            (case period of
               Week \<Rightarrow> getWeekBounds lib date
             | Month \<Rightarrow> getMonthBounds lib date
             | Year \<Rightarrow> getYearBounds lib date
             | All \<Rightarrow> \<lparr>rng_start = earliest (map a_startTime activities),
                       rng_end = latest (map a_startTime activities)\<rparr>
             | Custom \<Rightarrow> getWeekBounds lib date);
          periodActivities = filterActivitiesByDateRange activities dateRange
      in aggregateActivities periodActivities period dateRange)"

definition calculatePercentageChange :: "real \<Rightarrow> real \<Rightarrow> real" where
  "calculatePercentageChange oldValue newValue =
     (if oldValue = 0 then (if newValue > 0 then 100 else 0)
      else ((newValue - oldValue) / oldValue) * 100)"

definition comparePeriods :: "DateFns \<Rightarrow> Activity list \<Rightarrow> PeriodType \<Rightarrow> JSDate \<Rightarrow> ComparisonData" where
  "comparePeriods lib activities period currentDate =
     (let current = calculatePeriodStats lib activities period currentDate;
          previousDate = rng_start (getPreviousPeriodBounds lib period currentDate);
          previous = calculatePeriodStats lib activities period previousDate;
          changes =
            \<lparr>ch_distance = calculatePercentageChange (ps_totalDistance previous) (ps_totalDistance current),
             ch_time = calculatePercentageChange (ps_totalTime previous) (ps_totalTime current),
             ch_activities = calculatePercentageChange (ps_totalActivities previous) (ps_totalActivities current),
             ch_speed = calculatePercentageChange (ps_averageSpeed previous) (ps_averageSpeed current)\<rparr>
      in \<lparr>cd_current = current, cd_previous = previous, cd_changes = changes\<rparr>)"

section \<open>Notions used to state the properties\<close>

text \<open>
  What the theorems assume of double arithmetic, with \<open>u\<close> the relative error of a rounding
  (for doubles, 2 to the power -53) and \<open>v\<close> the absolute error of a result in the subnormal
  range (for doubles, 2 to the power -1075; a sum is exact there). No operation overflows:
  the values are finite.
\<close>

definition doubleArith :: "real \<Rightarrow> real \<Rightarrow> DoubleArith \<Rightarrow> bool" where
  "doubleArith u v fp \<longleftrightarrow>
     0 \<le> u \<and> 0 \<le> v
     \<and> (\<forall>x y. \<bar>fadd fp x y - (x + y)\<bar> \<le> u * \<bar>x + y\<bar>)
     \<and> (\<forall>x y. y \<noteq> 0 \<longrightarrow> \<bar>fdiv fp x y - x / y\<bar> \<le> u * \<bar>x / y\<bar> + v)
     \<and> (\<forall>x y. \<bar>fmul fp x y - x * y\<bar> \<le> u * \<bar>x * y\<bar> + v)"

text \<open>Two arithmetics within these bounds: the exact one, and one that rounds products down.\<close>

definition exactArith :: DoubleArith where
  "exactArith = \<lparr>fadd = (\<lambda>x y. x + y), fdiv = (\<lambda>x y. x / y), fmul = (\<lambda>x y. x * y)\<rparr>"

definition lowArith :: DoubleArith where
  "lowArith =
     \<lparr>fadd = (\<lambda>x y. x + y), fdiv = (\<lambda>x y. x / y),
      fmul = (\<lambda>x y. x * y - \<bar>x * y\<bar> / 2 ^ 53)\<rparr>"

text \<open>The sum of the six percentages of a \<open>ZonePercentages\<close>.\<close>

definition percentageSum :: "ZonePercentages \<Rightarrow> real" where
  "percentageSum p = zp_zone1 p + zp_zone2 p + zp_zone3 p + zp_zone4 p + zp_zone5 p + zp_unknown p"

text \<open>The exact sum of the six times of a distribution.\<close>

definition exactTotal :: "ZoneDistribution \<Rightarrow> real" where
  "exactTotal d = zd_zone1 d + zd_zone2 d + zd_zone3 d + zd_zone4 d + zd_zone5 d + zd_unknown d"

text \<open>A distribution of elapsed times: no time is negative.\<close>

definition elapsedTimes :: "ZoneDistribution \<Rightarrow> bool" where
  "elapsedTimes d \<longleftrightarrow>
     0 \<le> zd_zone1 d \<and> 0 \<le> zd_zone2 d \<and> 0 \<le> zd_zone3 d \<and> 0 \<le> zd_zone4 d
     \<and> 0 \<le> zd_zone5 d \<and> 0 \<le> zd_unknown d"

text \<open>The time a distribution holds for a zone, and the number of a zone.\<close>

fun zoneTime :: "ZoneDistribution \<Rightarrow> ZoneNumber \<Rightarrow> real" where
  "zoneTime d Zone1 = zd_zone1 d"
| "zoneTime d Zone2 = zd_zone2 d"
| "zoneTime d Zone3 = zd_zone3 d"
| "zoneTime d Zone4 = zd_zone4 d"
| "zoneTime d Zone5 = zd_zone5 d"

fun zoneIndex :: "ZoneNumber \<Rightarrow> nat" where
  "zoneIndex Zone1 = 1"
| "zoneIndex Zone2 = 2"
| "zoneIndex Zone3 = 3"
| "zoneIndex Zone4 = 4"
| "zoneIndex Zone5 = 5"

text \<open>
  Five zones in ascending order: numbered 1 to 5 along the list, no band empty, and both the
  lower and the upper bounds ascending. Bands may touch, overlap or leave gaps.
\<close>

definition zonesAscending :: "HeartRateZone list \<Rightarrow> bool" where
  "zonesAscending zones \<longleftrightarrow>
     map z_zone zones = [Zone1, Zone2, Zone3, Zone4, Zone5]
     \<and> (\<forall>z \<in> set zones. z_minHR z \<le> z_maxHR z)
     \<and> sorted (map z_minHR zones) \<and> sorted (map z_maxHR zones)"

text \<open>
  The decision list of the specification for the training type: six rules tried from top to
  bottom, the first one that holds gives the type, and the type is unknown when none holds.
\<close>

definition recoveryRule :: "ZonePercentages \<Rightarrow> bool" where
  "recoveryRule p \<longleftrightarrow> zp_zone1 p + zp_zone2 p > 60 \<and> zp_zone1 p > zp_zone2 p"

definition enduranceRule :: "ZonePercentages \<Rightarrow> bool" where
  "enduranceRule p \<longleftrightarrow> zp_zone2 p + zp_zone3 p > 70 \<and> zp_zone2 p > zp_zone3 p"

definition tempoRule :: "ZonePercentages \<Rightarrow> bool" where
  "tempoRule p \<longleftrightarrow> zp_zone3 p + zp_zone4 p > 50 \<and> zp_zone3 p > zp_zone4 p"

definition thresholdRule :: "ZonePercentages \<Rightarrow> bool" where
  "thresholdRule p \<longleftrightarrow> zp_zone4 p > 40"

definition intervalRule :: "ZonePercentages \<Rightarrow> bool" where
  "intervalRule p \<longleftrightarrow> zp_zone5 p > 20 \<or> (zp_zone4 p + zp_zone5 p > 50 \<and> zp_zone5 p > 15)"

definition mixedRule :: "ZonePercentages \<Rightarrow> bool" where
  "mixedRule p \<longleftrightarrow> zp_unknown p < 50"

definition specTrainingRules :: "((ZonePercentages \<Rightarrow> bool) \<times> TrainingType) list" where
  "specTrainingRules =
     [(recoveryRule, Recovery), (enduranceRule, Endurance), (tempoRule, Tempo),
      (thresholdRule, Threshold), (intervalRule, Interval), (mixedRule, Mixed)]"

fun firstMatch :: "(('a \<Rightarrow> bool) \<times> 'b) list \<Rightarrow> 'b \<Rightarrow> 'a \<Rightarrow> 'b" where
  "firstMatch [] otherwise p = otherwise"
| "firstMatch ((rule, label) # rules) otherwise p =
     (if rule p then label else firstMatch rules otherwise p)"

text \<open>
  The bucket an interval counts for: a zone, or \<open>None\<close> for the unknown bucket, which takes
  the intervals without heart rate, with the heart rate 0, and with a heart rate that the
  lookup maps to no zone. \<open>timeIn\<close> is the time of all intervals of an activity that count for
  a bucket, and \<open>bucketTime\<close> reads a bucket of a distribution.
\<close>

definition intervalBucket :: "HeartRateZone list \<Rightarrow> Interval \<Rightarrow> ZoneNumber option" where
  "intervalBucket zones iv =
     (case iv_hr iv of
        None \<Rightarrow> None
      | Some hr \<Rightarrow>
          if hr = 0 then None
          else (case getZoneForHeartRate hr zones of
                  Inr (Some zone) \<Rightarrow> Some zone
                | _ \<Rightarrow> None))"

definition timeIn :: "HeartRateZone list \<Rightarrow> Activity \<Rightarrow> ZoneNumber option \<Rightarrow> real" where
  "timeIn zones activity b =
     sum_list (map iv_duration
       (filter (\<lambda>iv. intervalBucket zones iv = b) (collectIntervals activity)))"

fun bucketTime :: "ZoneDistribution \<Rightarrow> ZoneNumber option \<Rightarrow> real" where
  "bucketTime d None = zd_unknown d"
| "bucketTime d (Some zone) = zoneTime d zone"

subsection \<open>Example data\<close>

text \<open>A zone with the given number and band, its texts left empty.\<close>

definition manualZone :: "ZoneNumber \<Rightarrow> real \<Rightarrow> real \<Rightarrow> HeartRateZone" where
  "manualZone n lo hi =
     \<lparr>z_zone = n, z_name = '''', z_description = '''', z_minHR = lo, z_maxHR = hi,
      z_minPercent = 0, z_maxPercent = 0, z_color = '''', z_benefits = [], z_recommendations = ''''\<rparr>"

text \<open>Manual zones that leave the heart rates between 110 and 114 uncovered.\<close>

definition gapZones :: "HeartRateZone list" where
  "gapZones = [manualZone Zone1 95 110, manualZone Zone2 114 133, manualZone Zone3 133 152,
               manualZone Zone4 152 171, manualZone Zone5 171 190]"

text \<open>A running activity of one lap that recorded no trackpoint.\<close>

definition emptyLap :: Lap where
  "emptyLap =
     \<lparr>lap_startTime = 700000000, lap_totalTimeSeconds = 3000, lap_distanceMeters = 10000,
      lap_maximumSpeed = None, lap_calories = None, lap_averageHeartRate = None,
      lap_maximumHeartRate = None, lap_intensity = None, lap_cadence = None,
      lap_triggerMethod = None, lap_trackpoints = []\<rparr>"

definition runWithoutTrackpoints :: "real \<Rightarrow> real \<Rightarrow> Activity" where
  "runWithoutTrackpoints distance time =
     \<lparr>a_id = ''a1'', a_sport = ''Running'', a_startTime = 700000000,
      a_totalTimeSeconds = time, a_distanceMeters = distance, a_calories = Some 650,
      a_notes = None, a_laps = [emptyLap], a_creator = None\<rparr>"

text \<open>
  A calendar for the examples: its weeks are the weeks of \<open>date-fns\<close> in the time zone UTC, from
  Monday 00:00:00.000 to Sunday 23:59:59.999. The examples use weeks only; the functions for
  months and years are left as the identity.
\<close>

definition utcWeeks :: DateFns where
  "utcWeeks =
     \<lparr>startOfWeek = (\<lambda>d. case d of
                          Date t \<Rightarrow> Date (t - (t + 259200000) mod 604800000)
                        | Invalid_Date \<Rightarrow> Invalid_Date),
      endOfWeek = (\<lambda>d. case d of
                        Date t \<Rightarrow> Date (t - (t + 259200000) mod 604800000 + 604799999)
                      | Invalid_Date \<Rightarrow> Invalid_Date),
      startOfMonth = (\<lambda>d. d), endOfMonth = (\<lambda>d. d),
      startOfYear = (\<lambda>d. d), endOfYear = (\<lambda>d. d),
      subWeeks = (\<lambda>d. case d of Date t \<Rightarrow> Date (t - 604800000) | Invalid_Date \<Rightarrow> Invalid_Date),
      subMonths = (\<lambda>d. d), subYears = (\<lambda>d. d)\<rparr>"

text \<open>A record of the sport Running, stored before the examples run.\<close>

definition storedRecord :: "RecordType \<Rightarrow> RecordCategory \<Rightarrow> real \<Rightarrow> PersonalRecord" where
  "storedRecord t c v =
     \<lparr>pr_id = ''a0-'' @ recordTypeString t @ ''-'' @ categoryString c,
      pr_type = t, pr_category = c, pr_value = v, pr_unit = getUnitForRecordType t,
      pr_activityId = ''a0'', pr_activityDate = 0, pr_sport = ''Running'',
      pr_previousValue = None, pr_previousActivityId = None, pr_previousDate = None,
      pr_improvement = None, pr_createdAt = 0, pr_isNew = Some True\<rparr>"

text \<open>
  A record of the sport Running that a later activity \<open>a2\<close> has set against a previous value.
  The store reads the records of a sport in the order of their ids, so that a record of the
  activity \<open>a0\<close> comes before the record of \<open>a2\<close> for the same type and category.
\<close>

definition laterRecord :: "RecordType \<Rightarrow> RecordCategory \<Rightarrow> real \<Rightarrow> real \<Rightarrow> real \<Rightarrow> PersonalRecord" where
  "laterRecord t c v p i =
     \<lparr>pr_id = ''a2-'' @ recordTypeString t @ ''-'' @ categoryString c,
      pr_type = t, pr_category = c, pr_value = v, pr_unit = getUnitForRecordType t,
      pr_activityId = ''a2'', pr_activityDate = 600000000, pr_sport = ''Running'',
      pr_previousValue = Some p, pr_previousActivityId = None, pr_previousDate = None,
      pr_improvement = Some i, pr_createdAt = 600000000, pr_isNew = Some True\<rparr>"

subsection \<open>Materialised detections\<close>

text \<open>
  The records that the service layer stores after a detection run: one
  \<open>createRecordFromDetection\<close> per detection, in the order of the detections.
\<close>

definition freshRecords :: "int \<Rightarrow> Activity \<Rightarrow> PersonalRecord list \<Rightarrow> PersonalRecord list" where
  "freshRecords now a rs =
     List.map_filter (\<lambda>d. createRecordFromDetection now d a) (detectRecords a rs)"

text \<open>
  The record that \<open>createRecordFromDetection\<close> builds at the time 800000000 for the example
  activity \<open>a1\<close>, by its type, category, value, previous value and improvement.
\<close>

definition createdRecord :: "RecordType \<Rightarrow> RecordCategory \<Rightarrow> real \<Rightarrow> real option \<Rightarrow> real option \<Rightarrow> PersonalRecord" where
  "createdRecord t c v p i =
     \<lparr>pr_id = ''a1-'' @ recordTypeString t @ ''-'' @ categoryString c,
      pr_type = t, pr_category = c, pr_value = v, pr_unit = getUnitForRecordType t,
      pr_activityId = ''a1'', pr_activityDate = 700000000, pr_sport = ''Running'',
      pr_previousValue = p, pr_previousActivityId = None, pr_previousDate = None,
      pr_improvement = i, pr_createdAt = 800000000, pr_isNew = Some True\<rparr>"

text \<open>
  The five zones of the age method for a maximal heart rate of 190: each bound between two
  zones belongs to both bands.
\<close>

definition ageZones190 :: "HeartRateZone list" where
  "ageZones190 = [manualZone Zone1 95 114, manualZone Zone2 114 133, manualZone Zone3 133 152,
                  manualZone Zone4 152 171, manualZone Zone5 171 190]"

text \<open>A trackpoint with a time and a heart rate only, and a lap of given trackpoints.\<close>

definition sample :: "int \<Rightarrow> real option \<Rightarrow> Trackpoint" where
  "sample t hr =
     \<lparr>tp_time = t, tp_latitude = None, tp_longitude = None, tp_altitude = None,
      tp_distance = None, tp_heartRate = hr, tp_cadence = None, tp_speed = None,
      tp_power = None\<rparr>"

definition lapOf :: "Trackpoint list \<Rightarrow> Lap" where
  "lapOf tps = emptyLap\<lparr>lap_trackpoints := tps\<rparr>"

text \<open>
  A run of two laps. The intervals of the first lap last 10 s at 120 beats, 15 s at 0 and 5 s
  at 112; those of the second 7 s at 0, 3 s without heart rate, 5 s at 200 and 5 s at 50.
\<close>

definition twoLapRun :: Activity where
  "twoLapRun =
     (runWithoutTrackpoints 5000 1500)
       \<lparr>a_laps :=
          [lapOf [sample 0 (Some 120), sample 10000 (Some 0), sample 25000 (Some 112),
                  sample 30000 (Some 150)],
           lapOf [sample 40000 (Some 0), sample 47000 None, sample 50000 (Some 200),
                  sample 55000 (Some 50), sample 60000 (Some 130)]]\<rparr>"

section \<open>Properties\<close>

subsection \<open>Training-zone classifier\<close>

lemma Math_round_bounds: "x - 1 / 2 < Math_round x \<and> Math_round x \<le> x + 1 / 2"
  unfolding Math_round_def by linarith

lemma Math_round_eq:
  "real_of_int k - 1 / 2 \<le> x \<Longrightarrow> x < real_of_int k + 1 / 2 \<Longrightarrow> Math_round x = real_of_int k"
  unfolding Math_round_def by (simp add: floor_eq_iff)

text \<open>
  One rounded addition of a time to a running total: if the total lies between \<open>c\<close> and \<open>C\<close>
  times the exact sum so far, the new total lies between \<open>c - u\<close> and \<open>C + 2 u\<close> times the new
  exact sum.
\<close>

lemma fadd_step:
  assumes fp: "doubleArith u v fp" and u: "u \<le> 1 / 10000"
    and c: "0 \<le> c'" "c' \<le> c - u" "c \<le> 1"
    and C: "1 \<le> C" "C \<le> 2" "C + 2 * u \<le> C'"
    and s: "0 \<le> s" and z: "0 \<le> z"
    and p: "c * s \<le> p" "p \<le> C * s"
  shows "c' * (s + z) \<le> fadd fp p z \<and> fadd fp p z \<le> C' * (s + z)"
proof -
  from fp have u0: "0 \<le> u" and acc: "\<bar>fadd fp p z - (p + z)\<bar> \<le> u * \<bar>p + z\<bar>"
    unfolding doubleArith_def by blast+
  have c0: "0 \<le> c" using c u0 by linarith
  have cs: "0 \<le> c * s" using c0 s by simp
  then have p0: "0 \<le> p" using p by linarith
  then have pz: "0 \<le> p + z" using z by simp
  from acc pz have lo: "(1 - u) * (p + z) \<le> fadd fp p z"
    and hi: "fadd fp p z \<le> (1 + u) * (p + z)"
    by (simp_all add: algebra_simps abs_le_iff)
  have sz: "0 \<le> s + z" using s z by simp
  have uc: "u * c \<le> u" using mult_left_mono [of c 1 u] u0 c by simp
  have cz: "c * z \<le> z" using mult_right_mono [of c 1 z] c z by simp
  have u1: "0 \<le> 1 - u" using u by simp
  have "c' * (s + z) \<le> (c - u * c) * (s + z)"
    using c uc sz by (intro mult_right_mono) linarith+
  also have "\<dots> = (1 - u) * (c * s + c * z)" by (simp add: algebra_simps)
  also have "\<dots> \<le> (1 - u) * (p + z)"
    using p cz u1 by (intro mult_left_mono) linarith+
  finally have L: "c' * (s + z) \<le> fadd fp p z" using lo by linarith
  have Cz: "z \<le> C * z" using mult_right_mono [of 1 C z] C z by simp
  have uC: "u * C \<le> 2 * u" using mult_left_mono [of C 2 u] u0 C by simp
  have "(1 + u) * (p + z) \<le> (1 + u) * (C * s + C * z)"
    using p Cz u0 by (intro mult_left_mono) linarith+
  also have "\<dots> = (C + u * C) * (s + z)" by (simp add: algebra_simps)
  also have "\<dots> \<le> C' * (s + z)"
    using C uC sz by (intro mult_right_mono) linarith+
  finally have U: "fadd fp p z \<le> C' * (s + z)" using hi by linarith
  from L U show ?thesis by simp
qed

lemma total_bounds:
  assumes fp: "doubleArith u v fp" and u: "u \<le> 1 / 10000" and d: "elapsedTimes d"
  shows "(1 - 6 * u) * exactTotal d \<le> distributionTotal fp d
       \<and> distributionTotal fp d \<le> (1 + 12 * u) * exactTotal d"
proof -
  from fp have u0: "0 \<le> u" unfolding doubleArith_def by blast
  from d have z: "0 \<le> zd_zone1 d" "0 \<le> zd_zone2 d" "0 \<le> zd_zone3 d" "0 \<le> zd_zone4 d"
    "0 \<le> zd_zone5 d" "0 \<le> zd_unknown d" unfolding elapsedTimes_def by simp_all
  define p1 where "p1 = fadd fp 0 (zd_zone1 d)"
  define p2 where "p2 = fadd fp p1 (zd_zone2 d)"
  define p3 where "p3 = fadd fp p2 (zd_zone3 d)"
  define p4 where "p4 = fadd fp p3 (zd_zone4 d)"
  define p5 where "p5 = fadd fp p4 (zd_zone5 d)"
  define p6 where "p6 = fadd fp p5 (zd_unknown d)"
  define s1 where "s1 = zd_zone1 d"
  define s2 where "s2 = s1 + zd_zone2 d"
  define s3 where "s3 = s2 + zd_zone3 d"
  define s4 where "s4 = s3 + zd_zone4 d"
  define s5 where "s5 = s4 + zd_zone5 d"
  define s6 where "s6 = s5 + zd_unknown d"
  have s: "0 \<le> s1" "0 \<le> s2" "0 \<le> s3" "0 \<le> s4" "0 \<le> s5"
    using z by (simp_all add: s1_def s2_def s3_def s4_def s5_def)
  have b1: "(1 - u) * s1 \<le> p1 \<and> p1 \<le> (1 + 2 * u) * s1"
    using fadd_step [OF fp u, of "1 - u" 1 1 "1 + 2 * u" 0 "zd_zone1 d" 0] u0 u z
    by (simp add: p1_def s1_def)
  have b2: "(1 - 2 * u) * s2 \<le> p2 \<and> p2 \<le> (1 + 4 * u) * s2"
    using fadd_step [OF fp u, of "1 - 2 * u" "1 - u" "1 + 2 * u" "1 + 4 * u" s1 "zd_zone2 d" p1]
      u0 u z s b1 by (simp add: p2_def s2_def)
  have b3: "(1 - 3 * u) * s3 \<le> p3 \<and> p3 \<le> (1 + 6 * u) * s3"
    using fadd_step [OF fp u, of "1 - 3 * u" "1 - 2 * u" "1 + 4 * u" "1 + 6 * u" s2 "zd_zone3 d" p2]
      u0 u z s b2 by (simp add: p3_def s3_def)
  have b4: "(1 - 4 * u) * s4 \<le> p4 \<and> p4 \<le> (1 + 8 * u) * s4"
    using fadd_step [OF fp u, of "1 - 4 * u" "1 - 3 * u" "1 + 6 * u" "1 + 8 * u" s3 "zd_zone4 d" p3]
      u0 u z s b3 by (simp add: p4_def s4_def)
  have b5: "(1 - 5 * u) * s5 \<le> p5 \<and> p5 \<le> (1 + 10 * u) * s5"
    using fadd_step [OF fp u, of "1 - 5 * u" "1 - 4 * u" "1 + 8 * u" "1 + 10 * u" s4 "zd_zone5 d" p4]
      u0 u z s b4 by (simp add: p5_def s5_def)
  have b6: "(1 - 6 * u) * s6 \<le> p6 \<and> p6 \<le> (1 + 12 * u) * s6"
    using fadd_step [OF fp u, of "1 - 6 * u" "1 - 5 * u" "1 + 10 * u" "1 + 12 * u" s5 "zd_unknown d" p5]
      u0 u z s b5 by (simp add: p6_def s6_def)
  have "p6 = distributionTotal fp d"
    by (simp add: distributionTotal_def p6_def p5_def p4_def p3_def p2_def p1_def)
  moreover have "s6 = exactTotal d"
    by (simp add: exactTotal_def s6_def s5_def s4_def s3_def s2_def s1_def)
  ultimately show ?thesis using b6 by simp
qed

text \<open>The double \<open>(time / total) * 100\<close> against the exact quotient.\<close>

lemma bucket_error:
  assumes fp: "doubleArith u v fp" and u: "u \<le> 1 / 10000" and z: "0 \<le> z" and T: "0 < T"
  shows "\<bar>fmul fp (fdiv fp z T) 100 - z / T * 100\<bar> \<le> 21 / 100000 * (z / T * 100) + 102 * v"
proof -
  define e where "e = z / T"
  define q1 where "q1 = fdiv fp z T"
  define q where "q = fmul fp q1 100"
  from fp have u0: "0 \<le> u" and v0: "0 \<le> v"
    and dv: "\<And>x y. y \<noteq> 0 \<Longrightarrow> \<bar>fdiv fp x y - x / y\<bar> \<le> u * \<bar>x / y\<bar> + v"
    and ml: "\<And>x y. \<bar>fmul fp x y - x * y\<bar> \<le> u * \<bar>x * y\<bar> + v"
    unfolding doubleArith_def by blast+
  have a1: "\<bar>q1 - e\<bar> \<le> u * \<bar>e\<bar> + v"
    unfolding q1_def e_def using T by (intro dv) simp
  have a2: "\<bar>q - q1 * 100\<bar> \<le> u * \<bar>q1 * 100\<bar> + v"
    unfolding q_def by (rule ml)
  have e0: "0 \<le> e" using z T by (simp add: e_def)
  define ue where "ue = u * e"
  have ue: "0 \<le> ue" "ue \<le> e / 10000"
    using mult_right_mono [of u "1 / 10000" e] u0 u e0 by (simp_all add: ue_def)
  have b1: "\<bar>q1 - e\<bar> \<le> ue + v" using a1 e0 by (simp add: ue_def)
  then have q1a: "\<bar>q1\<bar> \<le> e + ue + v" using e0 by linarith
  define w where "w = u * \<bar>q1\<bar>"
  have "w \<le> u * (e + ue + v)"
    unfolding w_def using q1a u0 by (intro mult_left_mono) simp_all
  also have "\<dots> = ue + u * ue + u * v" by (simp add: algebra_simps ue_def)
  finally have w1: "w \<le> ue + u * ue + u * v" .
  have uue: "u * ue \<le> ue / 10000"
    using mult_right_mono [of u "1 / 10000" ue] u ue by simp
  have uv: "u * v \<le> v / 10000"
    using mult_right_mono [of u "1 / 10000" v] u v0 by simp
  have "u * \<bar>q1 * 100\<bar> = 100 * w" by (simp add: w_def abs_mult)
  with a2 have b2: "\<bar>q - q1 * 100\<bar> \<le> 100 * w + v" by simp
  have "q - e * 100 = (q - q1 * 100) + 100 * (q1 - e)" by simp
  then have "\<bar>q - e * 100\<bar> \<le> \<bar>q - q1 * 100\<bar> + \<bar>100 * (q1 - e)\<bar>"
    using abs_triangle_ineq [of "q - q1 * 100" "100 * (q1 - e)"] by simp
  also have "\<bar>100 * (q1 - e)\<bar> = 100 * \<bar>q1 - e\<bar>" by (simp only: abs_mult abs_numeral)
  finally have "\<bar>q - e * 100\<bar> \<le> \<bar>q - q1 * 100\<bar> + 100 * \<bar>q1 - e\<bar>" .
  then have "\<bar>q - e * 100\<bar> \<le> 21 / 100000 * (e * 100) + 102 * v"
    using b1 b2 w1 uue uv ue v0 by linarith
  then show ?thesis by (simp add: q_def q1_def e_def)
qed

lemma exact_percentages:
  assumes "T \<noteq> 0"
  shows "zd_zone1 d / T * 100 + zd_zone2 d / T * 100 + zd_zone3 d / T * 100
       + zd_zone4 d / T * 100 + zd_zone5 d / T * 100 + zd_unknown d / T * 100
       = exactTotal d / T * 100"
  by (simp add: exactTotal_def add_divide_distrib distrib_right)

lemma computed_total_positive:
  assumes fp: "doubleArith u v fp" and u: "u \<le> 1 / 10000" and d: "elapsedTimes d"
    and S: "0 < exactTotal d"
  shows "0 < distributionTotal fp d"
proof -
  from fp have u0: "0 \<le> u" unfolding doubleArith_def by blast
  have "0 < (1 - 6 * u) * exactTotal d" using u S by (intro mult_pos_pos) simp_all
  then show ?thesis using total_bounds [OF fp u d] by linarith
qed

lemma exact_ratio_bounds:
  assumes fp: "doubleArith u v fp" and u: "u \<le> 1 / 10000" and d: "elapsedTimes d"
    and S: "0 < exactTotal d"
  shows "9988 / 100 \<le> exactTotal d / distributionTotal fp d * 100
       \<and> exactTotal d / distributionTotal fp d * 100 \<le> 10007 / 100"
proof -
  define T where "T = distributionTotal fp d"
  define r where "r = exactTotal d / T"
  from fp have u0: "0 \<le> u" unfolding doubleArith_def by blast
  have T: "0 < T" unfolding T_def using fp u d S by (rule computed_total_positive)
  have r0: "0 < r" using S T by (simp add: r_def)
  from total_bounds [OF fp u d]
  have lo: "(1 - 6 * u) * exactTotal d \<le> T" and hi: "T \<le> (1 + 12 * u) * exactTotal d"
    by (simp_all add: T_def)
  have "(1 - 6 * u) * exactTotal d / T \<le> T / T"
    using lo T by (intro divide_right_mono) simp_all
  then have l1: "(1 - 6 * u) * r \<le> 1" using T by (simp add: r_def)
  have "T / T \<le> (1 + 12 * u) * exactTotal d / T"
    using hi T by (intro divide_right_mono) simp_all
  then have h1: "1 \<le> (1 + 12 * u) * r" using T by (simp add: r_def)
  define ur where "ur = u * r"
  have ur: "0 \<le> ur" "ur \<le> r / 10000"
    using mult_right_mono [of u "1 / 10000" r] u0 u r0 by (simp_all add: ur_def)
  from l1 have "r - 6 * ur \<le> 1" by (simp add: algebra_simps ur_def)
  moreover from h1 have "1 \<le> r + 12 * ur" by (simp add: algebra_simps ur_def)
  ultimately have "9988 / 100 \<le> r * 100 \<and> r * 100 \<le> 10007 / 100"
    using ur by linarith
  then show ?thesis by (simp add: r_def T_def)
qed

lemma bucket_round:
  assumes fp: "doubleArith u v fp" and u: "u \<le> 1 / 10000" and z: "0 \<le> z" and T: "0 < T"
  shows "\<exists>k::int. Math_round (fmul fp (fdiv fp z T) 100) = of_int k
           \<and> z / T * 100 - 21 / 100000 * (z / T * 100) - 102 * v - 1 / 2 < of_int k
           \<and> of_int k \<le> z / T * 100 + 21 / 100000 * (z / T * 100) + 102 * v + 1 / 2"
proof -
  define q where "q = fmul fp (fdiv fp z T) 100"
  define a where "a = z / T * 100"
  obtain k :: int where k: "Math_round q = of_int k"
    unfolding Math_round_def by blast
  have e: "\<bar>q - a\<bar> \<le> 21 / 100000 * a + 102 * v"
    unfolding q_def a_def using fp u z T by (rule bucket_error)
  have r: "q - 1 / 2 < of_int k" "of_int k \<le> q + 1 / 2"
    using Math_round_bounds [of q] k by simp_all
  have "a - 21 / 100000 * a - 102 * v - 1 / 2 < of_int k"
    using e r by linarith
  moreover have "of_int k \<le> a + 21 / 100000 * a + 102 * v + 1 / 2"
    using e r by linarith
  ultimately show ?thesis using k unfolding q_def a_def by blast
qed


lemma exactArith_ok: "doubleArith 0 0 exactArith"
  by (simp add: doubleArith_def exactArith_def)

lemma lowArith_ok: "doubleArith (1 / 2 ^ 53) 0 lowArith"
  by (simp add: doubleArith_def lowArith_def)

lemma equal_times_each_17:
  assumes fp: "doubleArith u v fp" and u: "u \<le> 1 / 10000" and v: "v \<le> 1 / 10000"
    and T: "T = distributionTotal fp
              \<lparr>zd_zone1 = 1, zd_zone2 = 1, zd_zone3 = 1, zd_zone4 = 1, zd_zone5 = 1, zd_unknown = 1\<rparr>"
  shows "T \<noteq> 0 \<and> Math_round (fmul fp (fdiv fp 1 T) 100) = 17"
proof -
  let ?d = "\<lparr>zd_zone1 = 1, zd_zone2 = 1, zd_zone3 = 1, zd_zone4 = 1, zd_zone5 = 1, zd_unknown = 1\<rparr>"
  have d: "elapsedTimes ?d" and S: "exactTotal ?d = 6"
    by (simp_all add: elapsedTimes_def exactTotal_def)
  have S0: "0 < exactTotal ?d" using S by simp
  have T0: "0 < T" unfolding T using fp u d S0 by (rule computed_total_positive)
  from fp have v0: "0 \<le> v" unfolding doubleArith_def by blast
  define a where "a = 1 / T * 100"
  from exact_ratio_bounds [OF fp u d S0]
  have "9988 / 100 \<le> 6 * a \<and> 6 * a \<le> 10007 / 100"
    by (simp add: S T a_def)
  then have a: "9988 / 600 \<le> a" "a \<le> 10007 / 600" by simp_all
  from bucket_round [OF fp u _ T0, of 1] obtain k :: int where
    k: "Math_round (fmul fp (fdiv fp 1 T) 100) = of_int k"
       "a - 21 / 100000 * a - 102 * v - 1 / 2 < of_int k"
       "of_int k \<le> a + 21 / 100000 * a + 102 * v + 1 / 2"
    unfolding a_def by auto
  from k(2) a v have "16 < real_of_int k" by simp
  then have "16 < k" by linarith
  moreover from k(3) a v v0 have "real_of_int k < 18" by simp
  then have "k < 18" by linarith
  ultimately have "k = 17" by simp
  then show ?thesis using k(1) T0 by simp
qed

lemma equal_times_sum_102:
  assumes fp: "doubleArith u v fp" and u: "u \<le> 1 / 10000" and v: "v \<le> 1 / 10000"
  shows "percentageSum (calculateZonePercentages fp
           \<lparr>zd_zone1 = 1, zd_zone2 = 1, zd_zone3 = 1, zd_zone4 = 1, zd_zone5 = 1, zd_unknown = 1\<rparr>)
         = 102"
  using equal_times_each_17 [OF fp u v refl]
  by (simp add: calculateZonePercentages_def percentageSum_def Let_def)

text \<open>
  Claim C2, as stated: for a distribution with positive total time the six rounded percentages
  sum to a value within 100 plus or minus 1. It fails: six equal times give six times 17,
  under the exact arithmetic and under the one that rounds products down, and under any
  arithmetic as accurate as doubles (\<open>equal_times_sum_102\<close>).
\<close>

theorem zone_percentages_sum_counterexample:
  "exactTotal \<lparr>zd_zone1 = 1, zd_zone2 = 1, zd_zone3 = 1, zd_zone4 = 1, zd_zone5 = 1, zd_unknown = 1\<rparr> = 6
   \<and> percentageSum (calculateZonePercentages exactArith
        \<lparr>zd_zone1 = 1, zd_zone2 = 1, zd_zone3 = 1, zd_zone4 = 1, zd_zone5 = 1, zd_unknown = 1\<rparr>) = 102
   \<and> percentageSum (calculateZonePercentages lowArith
        \<lparr>zd_zone1 = 1, zd_zone2 = 1, zd_zone3 = 1, zd_zone4 = 1, zd_zone5 = 1, zd_unknown = 1\<rparr>) = 102
   \<and> \<not> \<bar>percentageSum (calculateZonePercentages exactArith
        \<lparr>zd_zone1 = 1, zd_zone2 = 1, zd_zone3 = 1, zd_zone4 = 1, zd_zone5 = 1, zd_unknown = 1\<rparr>) - 100\<bar> \<le> 1"
proof -
  have "(0::real) \<le> 1 / 10000" and "(1::real) / 2 ^ 53 \<le> 1 / 10000" by simp_all
  then show ?thesis
    using equal_times_sum_102 [OF exactArith_ok] equal_times_sum_102 [OF lowArith_ok]
    by (simp add: exactTotal_def)
qed


lemma percentage_sum_bounds:
  assumes fp: "doubleArith u v fp" and u: "u \<le> 1 / 10000" and v: "v \<le> 1 / 10000"
    and d: "elapsedTimes d" and S: "0 < exactTotal d"
  shows "97 \<le> percentageSum (calculateZonePercentages fp d)
       \<and> percentageSum (calculateZonePercentages fp d) \<le> 103"
proof -
  define T where "T = distributionTotal fp d"
  have T: "0 < T" unfolding T_def using fp u d S by (rule computed_total_positive)
  from d have z: "0 \<le> zd_zone1 d" "0 \<le> zd_zone2 d" "0 \<le> zd_zone3 d" "0 \<le> zd_zone4 d"
    "0 \<le> zd_zone5 d" "0 \<le> zd_unknown d" unfolding elapsedTimes_def by simp_all
  define a1 where "a1 = zd_zone1 d / T * 100"
  define a2 where "a2 = zd_zone2 d / T * 100"
  define a3 where "a3 = zd_zone3 d / T * 100"
  define a4 where "a4 = zd_zone4 d / T * 100"
  define a5 where "a5 = zd_zone5 d / T * 100"
  define a6 where "a6 = zd_unknown d / T * 100"
  obtain k1 :: int where k1: "Math_round (fmul fp (fdiv fp (zd_zone1 d) T) 100) = of_int k1"
    "a1 - 21 / 100000 * a1 - 102 * v - 1 / 2 < of_int k1"
    "of_int k1 \<le> a1 + 21 / 100000 * a1 + 102 * v + 1 / 2"
    using bucket_round [OF fp u z(1) T] unfolding a1_def by blast
  obtain k2 :: int where k2: "Math_round (fmul fp (fdiv fp (zd_zone2 d) T) 100) = of_int k2"
    "a2 - 21 / 100000 * a2 - 102 * v - 1 / 2 < of_int k2"
    "of_int k2 \<le> a2 + 21 / 100000 * a2 + 102 * v + 1 / 2"
    using bucket_round [OF fp u z(2) T] unfolding a2_def by blast
  obtain k3 :: int where k3: "Math_round (fmul fp (fdiv fp (zd_zone3 d) T) 100) = of_int k3"
    "a3 - 21 / 100000 * a3 - 102 * v - 1 / 2 < of_int k3"
    "of_int k3 \<le> a3 + 21 / 100000 * a3 + 102 * v + 1 / 2"
    using bucket_round [OF fp u z(3) T] unfolding a3_def by blast
  obtain k4 :: int where k4: "Math_round (fmul fp (fdiv fp (zd_zone4 d) T) 100) = of_int k4"
    "a4 - 21 / 100000 * a4 - 102 * v - 1 / 2 < of_int k4"
    "of_int k4 \<le> a4 + 21 / 100000 * a4 + 102 * v + 1 / 2"
    using bucket_round [OF fp u z(4) T] unfolding a4_def by blast
  obtain k5 :: int where k5: "Math_round (fmul fp (fdiv fp (zd_zone5 d) T) 100) = of_int k5"
    "a5 - 21 / 100000 * a5 - 102 * v - 1 / 2 < of_int k5"
    "of_int k5 \<le> a5 + 21 / 100000 * a5 + 102 * v + 1 / 2"
    using bucket_round [OF fp u z(5) T] unfolding a5_def by blast
  obtain k6 :: int where k6: "Math_round (fmul fp (fdiv fp (zd_unknown d) T) 100) = of_int k6"
    "a6 - 21 / 100000 * a6 - 102 * v - 1 / 2 < of_int k6"
    "of_int k6 \<le> a6 + 21 / 100000 * a6 + 102 * v + 1 / 2"
    using bucket_round [OF fp u z(6) T] unfolding a6_def by blast
  have A: "a1 + a2 + a3 + a4 + a5 + a6 = exactTotal d / T * 100"
    unfolding a1_def a2_def a3_def a4_def a5_def a6_def using T by (intro exact_percentages) simp
  from exact_ratio_bounds [OF fp u d S]
  have R: "9988 / 100 \<le> exactTotal d / T * 100" "exactTotal d / T * 100 \<le> 10007 / 100"
    by (simp_all add: T_def)
  from fp have v0: "0 \<le> v" unfolding doubleArith_def by blast
  have sum: "percentageSum (calculateZonePercentages fp d)
             = real_of_int (k1 + k2 + k3 + k4 + k5 + k6)"
    using T k1(1) k2(1) k3(1) k4(1) k5(1) k6(1)
    by (simp add: percentageSum_def calculateZonePercentages_def Let_def T_def)
  have "96 < real_of_int (k1 + k2 + k3 + k4 + k5 + k6)"
    using k1(2) k2(2) k3(2) k4(2) k5(2) k6(2) A R v v0 by simp
  then have "96 < k1 + k2 + k3 + k4 + k5 + k6" by linarith
  then have "97 \<le> k1 + k2 + k3 + k4 + k5 + k6" by simp
  then have lo: "97 \<le> real_of_int (k1 + k2 + k3 + k4 + k5 + k6)"
    by (metis of_int_le_iff of_int_numeral)
  have "real_of_int (k1 + k2 + k3 + k4 + k5 + k6) < 104"
    using k1(3) k2(3) k3(3) k4(3) k5(3) k6(3) A R v v0 by simp
  then have "k1 + k2 + k3 + k4 + k5 + k6 < 104" by linarith
  then have "k1 + k2 + k3 + k4 + k5 + k6 \<le> 103" by simp
  then have hi: "real_of_int (k1 + k2 + k3 + k4 + k5 + k6) \<le> 103"
    by (metis of_int_le_iff of_int_numeral)
  from lo hi sum show ?thesis by simp
qed

text \<open>
  Claim C2, amended: for every distribution of elapsed times (none negative) with positive
  total time, the six percentages of \<open>calculateZonePercentages\<close>, each rounded on its own from
  a value computed in double arithmetic, sum to a value within 100 plus or minus 3, from 97 to
  103.
\<close>

theorem zone_percentages_sum_within_3:
  assumes fp: "doubleArith u v fp" and u: "u \<le> 1 / 10000" and v: "v \<le> 1 / 10000"
    and d: "elapsedTimes d" and S: "0 < exactTotal d"
  shows "97 \<le> percentageSum (calculateZonePercentages fp d)
       \<and> percentageSum (calculateZonePercentages fp d) \<le> 103"
  using assms by (rule percentage_sum_bounds)

theorem zone_percentages_sum_within_3_witness:
  "doubleArith (1 / 2 ^ 53) 0 lowArith
   \<and> elapsedTimes \<lparr>zd_zone1 = 33, zd_zone2 = 33, zd_zone3 = 33, zd_zone4 = 33, zd_zone5 = 33, zd_unknown = 35\<rparr>
   \<and> 0 < exactTotal \<lparr>zd_zone1 = 33, zd_zone2 = 33, zd_zone3 = 33, zd_zone4 = 33, zd_zone5 = 33, zd_unknown = 35\<rparr>
   \<and> 97 \<le> percentageSum (calculateZonePercentages lowArith
        \<lparr>zd_zone1 = 33, zd_zone2 = 33, zd_zone3 = 33, zd_zone4 = 33, zd_zone5 = 33, zd_unknown = 35\<rparr>)
   \<and> percentageSum (calculateZonePercentages lowArith
        \<lparr>zd_zone1 = 33, zd_zone2 = 33, zd_zone3 = 33, zd_zone4 = 33, zd_zone5 = 33, zd_unknown = 35\<rparr>) \<le> 103"
proof -
  let ?d = "\<lparr>zd_zone1 = 33, zd_zone2 = 33, zd_zone3 = 33, zd_zone4 = 33, zd_zone5 = 33, zd_unknown = 35\<rparr>"
  have u: "(1::real) / 2 ^ 53 \<le> 1 / 10000" and v: "(0::real) \<le> 1 / 10000" by simp_all
  have d: "elapsedTimes ?d" and S: "0 < exactTotal ?d"
    by (simp_all add: elapsedTimes_def exactTotal_def)
  from zone_percentages_sum_within_3 [OF lowArith_ok u v d S] lowArith_ok d S
  show ?thesis by blast
qed

text \<open>
  Both ends of the range are reached: 103 when every product is exact, 97 when every product
  is rounded down by one part in 2 to the power 53, on a distribution whose six exact
  percentages end in a half.
\<close>

lemma low_33_of_200: "Math_round (fmul lowArith (fdiv lowArith 33 200) 100) = 16"
  using Math_round_eq [of 16 "fmul lowArith (fdiv lowArith 33 200) 100"]
  by (simp add: lowArith_def)

lemma low_35_of_200: "Math_round (fmul lowArith (fdiv lowArith 35 200) 100) = 17"
  using Math_round_eq [of 17 "fmul lowArith (fdiv lowArith 35 200) 100"]
  by (simp add: lowArith_def)

lemma low_total_200:
  "distributionTotal lowArith
     \<lparr>zd_zone1 = 33, zd_zone2 = 33, zd_zone3 = 33, zd_zone4 = 33, zd_zone5 = 33, zd_unknown = 35\<rparr> = 200"
  by (simp add: distributionTotal_def lowArith_def)

lemma percentage_sum_97:
  "percentageSum (calculateZonePercentages lowArith
     \<lparr>zd_zone1 = 33, zd_zone2 = 33, zd_zone3 = 33, zd_zone4 = 33, zd_zone5 = 33, zd_unknown = 35\<rparr>) = 97"
  by (simp add: calculateZonePercentages_def percentageSum_def Let_def low_total_200
      low_33_of_200 low_35_of_200)

lemma exact_33_of_200: "Math_round (fmul exactArith (fdiv exactArith 33 200) 100) = 17"
  using Math_round_eq [of 17 "fmul exactArith (fdiv exactArith 33 200) 100"]
  by (simp add: exactArith_def)

lemma exact_35_of_200: "Math_round (fmul exactArith (fdiv exactArith 35 200) 100) = 18"
  using Math_round_eq [of 18 "fmul exactArith (fdiv exactArith 35 200) 100"]
  by (simp add: exactArith_def)

lemma exact_total_200:
  "distributionTotal exactArith
     \<lparr>zd_zone1 = 33, zd_zone2 = 33, zd_zone3 = 33, zd_zone4 = 33, zd_zone5 = 33, zd_unknown = 35\<rparr> = 200"
  by (simp add: distributionTotal_def exactArith_def)

lemma percentage_sum_103:
  "percentageSum (calculateZonePercentages exactArith
     \<lparr>zd_zone1 = 33, zd_zone2 = 33, zd_zone3 = 33, zd_zone4 = 33, zd_zone5 = 33, zd_unknown = 35\<rparr>) = 103"
  by (simp add: calculateZonePercentages_def percentageSum_def Let_def exact_total_200
      exact_33_of_200 exact_35_of_200)


text \<open>
  Claim C6: the training type is the label of the first rule that holds in the decision list
  of the specification (recovery, endurance, tempo, threshold, interval, mixed), and unknown
  when none holds; in particular a \<open>ZonePercentages\<close> that meets both the recovery condition
  (Z1 + Z2 > 60 and Z1 > Z2) and the endurance condition (Z2 + Z3 > 70 and Z2 > Z3) is
  classified as recovery.
\<close>

theorem determineTrainingType_first_match:
  "determineTrainingType p = firstMatch specTrainingRules Unknown p
   \<and> (zp_zone1 p + zp_zone2 p > 60 \<and> zp_zone1 p > zp_zone2 p
       \<and> zp_zone2 p + zp_zone3 p > 70 \<and> zp_zone2 p > zp_zone3 p
      \<longrightarrow> determineTrainingType p = Recovery)"
  by (simp add: determineTrainingType_def specTrainingRules_def recoveryRule_def
      enduranceRule_def tempoRule_def thresholdRule_def intervalRule_def mixedRule_def)

theorem determineTrainingType_first_match_witness:
  "determineTrainingType
     \<lparr>zp_zone1 = 50, zp_zone2 = 40, zp_zone3 = 35, zp_zone4 = 0, zp_zone5 = 0, zp_unknown = 0\<rparr>
   = Recovery
   \<and> determineTrainingType
     \<lparr>zp_zone1 = 5, zp_zone2 = 40, zp_zone3 = 31, zp_zone4 = 20, zp_zone5 = 4, zp_unknown = 0\<rparr>
   = Endurance
   \<and> determineTrainingType
     \<lparr>zp_zone1 = 5, zp_zone2 = 25, zp_zone3 = 35, zp_zone4 = 30, zp_zone5 = 5, zp_unknown = 0\<rparr>
   = Tempo
   \<and> determineTrainingType
     \<lparr>zp_zone1 = 0, zp_zone2 = 0, zp_zone3 = 10, zp_zone4 = 45, zp_zone5 = 30, zp_unknown = 15\<rparr>
   = Threshold
   \<and> determineTrainingType
     \<lparr>zp_zone1 = 10, zp_zone2 = 10, zp_zone3 = 10, zp_zone4 = 35, zp_zone5 = 25, zp_unknown = 10\<rparr>
   = Interval
   \<and> determineTrainingType
     \<lparr>zp_zone1 = 20, zp_zone2 = 20, zp_zone3 = 20, zp_zone4 = 20, zp_zone5 = 20, zp_unknown = 0\<rparr>
   = Mixed
   \<and> determineTrainingType
     \<lparr>zp_zone1 = 10, zp_zone2 = 10, zp_zone3 = 10, zp_zone4 = 10, zp_zone5 = 10, zp_unknown = 50\<rparr>
   = Unknown"
proof -
  note r = specTrainingRules_def recoveryRule_def enduranceRule_def tempoRule_def
    thresholdRule_def intervalRule_def mixedRule_def
  have 1: "determineTrainingType
     \<lparr>zp_zone1 = 50, zp_zone2 = 40, zp_zone3 = 35, zp_zone4 = 0, zp_zone5 = 0, zp_unknown = 0\<rparr>
     = Recovery"
    using determineTrainingType_first_match
      [of "\<lparr>zp_zone1 = 50, zp_zone2 = 40, zp_zone3 = 35, zp_zone4 = 0, zp_zone5 = 0, zp_unknown = 0\<rparr>"]
    by (simp add: r)
  have 2: "determineTrainingType
     \<lparr>zp_zone1 = 5, zp_zone2 = 40, zp_zone3 = 31, zp_zone4 = 20, zp_zone5 = 4, zp_unknown = 0\<rparr>
     = Endurance"
    using determineTrainingType_first_match
      [of "\<lparr>zp_zone1 = 5, zp_zone2 = 40, zp_zone3 = 31, zp_zone4 = 20, zp_zone5 = 4, zp_unknown = 0\<rparr>"]
    by (simp add: r)
  have 3: "determineTrainingType
     \<lparr>zp_zone1 = 5, zp_zone2 = 25, zp_zone3 = 35, zp_zone4 = 30, zp_zone5 = 5, zp_unknown = 0\<rparr>
     = Tempo"
    using determineTrainingType_first_match
      [of "\<lparr>zp_zone1 = 5, zp_zone2 = 25, zp_zone3 = 35, zp_zone4 = 30, zp_zone5 = 5, zp_unknown = 0\<rparr>"]
    by (simp add: r)
  have 4: "determineTrainingType
     \<lparr>zp_zone1 = 0, zp_zone2 = 0, zp_zone3 = 10, zp_zone4 = 45, zp_zone5 = 30, zp_unknown = 15\<rparr>
     = Threshold"
    using determineTrainingType_first_match
      [of "\<lparr>zp_zone1 = 0, zp_zone2 = 0, zp_zone3 = 10, zp_zone4 = 45, zp_zone5 = 30, zp_unknown = 15\<rparr>"]
    by (simp add: r)
  have 5: "determineTrainingType
     \<lparr>zp_zone1 = 10, zp_zone2 = 10, zp_zone3 = 10, zp_zone4 = 35, zp_zone5 = 25, zp_unknown = 10\<rparr>
     = Interval"
    using determineTrainingType_first_match
      [of "\<lparr>zp_zone1 = 10, zp_zone2 = 10, zp_zone3 = 10, zp_zone4 = 35, zp_zone5 = 25, zp_unknown = 10\<rparr>"]
    by (simp add: r)
  have 6: "determineTrainingType
     \<lparr>zp_zone1 = 20, zp_zone2 = 20, zp_zone3 = 20, zp_zone4 = 20, zp_zone5 = 20, zp_unknown = 0\<rparr>
     = Mixed"
    using determineTrainingType_first_match
      [of "\<lparr>zp_zone1 = 20, zp_zone2 = 20, zp_zone3 = 20, zp_zone4 = 20, zp_zone5 = 20, zp_unknown = 0\<rparr>"]
    by (simp add: r)
  have 7: "determineTrainingType
     \<lparr>zp_zone1 = 10, zp_zone2 = 10, zp_zone3 = 10, zp_zone4 = 10, zp_zone5 = 10, zp_unknown = 50\<rparr>
     = Unknown"
    using determineTrainingType_first_match
      [of "\<lparr>zp_zone1 = 10, zp_zone2 = 10, zp_zone3 = 10, zp_zone4 = 10, zp_zone5 = 10, zp_unknown = 50\<rparr>"]
    by (simp add: r)
  from 1 2 3 4 5 6 7 show ?thesis by blast
qed

text \<open>
  Percentages that meet the recovery and the endurance condition together have zones 1 to 3
  above 105 in sum, which \<open>calculateZonePercentages\<close> never returns for elapsed times; the
  endurance and the tempo condition meet on percentages that it does return, and there the
  order decides.
\<close>

lemma recovery_and_endurance_exceed_105:
  assumes "recoveryRule p" and "enduranceRule p"
  shows "zp_zone1 p + zp_zone2 p + zp_zone3 p > 105"
  using assms unfolding recoveryRule_def enduranceRule_def by linarith

lemma endurance_and_tempo_within_100:
  "enduranceRule \<lparr>zp_zone1 = 5, zp_zone2 = 40, zp_zone3 = 31, zp_zone4 = 20, zp_zone5 = 4, zp_unknown = 0\<rparr>
   \<and> tempoRule \<lparr>zp_zone1 = 5, zp_zone2 = 40, zp_zone3 = 31, zp_zone4 = 20, zp_zone5 = 4, zp_unknown = 0\<rparr>
   \<and> calculateZonePercentages exactArith
        \<lparr>zd_zone1 = 5, zd_zone2 = 40, zd_zone3 = 31, zd_zone4 = 20, zd_zone5 = 4, zd_unknown = 0\<rparr>
      = \<lparr>zp_zone1 = 5, zp_zone2 = 40, zp_zone3 = 31, zp_zone4 = 20, zp_zone5 = 4, zp_unknown = 0\<rparr>"
  by (simp add: enduranceRule_def tempoRule_def calculateZonePercentages_def
      distributionTotal_def exactArith_def Math_round_def)

lemma bucket_nonneg:
  assumes fp: "doubleArith u v fp" and u: "u \<le> 1 / 10000" and v: "v \<le> 1 / 10000"
    and z: "0 \<le> z" and T: "0 < T"
  shows "0 \<le> Math_round (fmul fp (fdiv fp z T) 100)"
proof -
  define a where "a = z / T * 100"
  have a: "0 \<le> a" using z T by (simp add: a_def)
  from bucket_round [OF fp u z T] obtain k :: int where
    k: "Math_round (fmul fp (fdiv fp z T) 100) = of_int k"
       "a - 21 / 100000 * a - 102 * v - 1 / 2 < of_int k"
    unfolding a_def by blast
  from k(2) a v have "- 1 < real_of_int k" by simp
  then have "0 \<le> k" by linarith
  then show ?thesis using k(1) by simp
qed

lemma computed_never_recovery_and_endurance:
  assumes fp: "doubleArith u v fp" and u: "u \<le> 1 / 10000" and v: "v \<le> 1 / 10000"
    and d: "elapsedTimes d" and S: "0 < exactTotal d"
  shows "\<not> (recoveryRule (calculateZonePercentages fp d)
            \<and> enduranceRule (calculateZonePercentages fp d))"
proof
  let ?p = "calculateZonePercentages fp d"
  assume "recoveryRule ?p \<and> enduranceRule ?p"
  then have big: "zp_zone1 ?p + zp_zone2 ?p + zp_zone3 ?p > 105"
    using recovery_and_endurance_exceed_105 by blast
  have T: "0 < distributionTotal fp d" using fp u d S by (rule computed_total_positive)
  from d have z: "0 \<le> zd_zone4 d" "0 \<le> zd_zone5 d" "0 \<le> zd_unknown d"
    unfolding elapsedTimes_def by simp_all
  have "0 \<le> zp_zone4 ?p" "0 \<le> zp_zone5 ?p" "0 \<le> zp_unknown ?p"
    using T bucket_nonneg [OF fp u v z(1) T] bucket_nonneg [OF fp u v z(2) T]
      bucket_nonneg [OF fp u v z(3) T]
    by (simp_all add: calculateZonePercentages_def Let_def)
  with big have "percentageSum ?p > 105" by (simp add: percentageSum_def)
  with percentage_sum_bounds [OF fp u v d S] show False by simp
qed

lemma zone_ex: "(\<exists>z. P z) \<longleftrightarrow> P Zone1 \<or> P Zone2 \<or> P Zone3 \<or> P Zone4 \<or> P Zone5"
  by (metis ZoneNumber.exhaust)

lemma zone_all: "(\<forall>z. P z) \<longleftrightarrow> P Zone1 \<and> P Zone2 \<and> P Zone3 \<and> P Zone4 \<and> P Zone5"
  by (metis ZoneNumber.exhaust)

lemma dominant_some:
  assumes "\<exists>z. zoneTime d z > 0"
  shows "\<exists>k. getDominantZone d = Some k
         \<and> (\<forall>z. zoneTime d z \<le> zoneTime d k)
         \<and> (\<forall>z. zoneIndex z < zoneIndex k \<longrightarrow> zoneTime d z < zoneTime d k)"
  using assms unfolding zone_ex zone_all getDominantZone_def pickLarger_def Let_def
  by (auto simp: not_less)

lemma dominant_none: "(\<forall>z. zoneTime d z = 0) \<Longrightarrow> getDominantZone d = None"
  unfolding zone_all getDominantZone_def pickLarger_def Let_def by simp

lemma dominant_unknown: "getDominantZone (d\<lparr>zd_unknown := u\<rparr>) = getDominantZone d"
  unfolding getDominantZone_def by simp

text \<open>
  Claim C8: when some zone among 1 to 5 has a positive time, \<open>getDominantZone\<close> returns a zone
  whose time is the largest of the five and strictly larger than the time of every zone with
  a lower number; when the five zone times are zero it returns nothing; the unknown bucket
  has no influence, however large it is.
\<close>

theorem getDominantZone_largest_lowest:
  "((\<exists>z. zoneTime d z > 0) \<longrightarrow>
      (\<exists>k. getDominantZone d = Some k
         \<and> (\<forall>z. zoneTime d z \<le> zoneTime d k)
         \<and> (\<forall>z. zoneIndex z < zoneIndex k \<longrightarrow> zoneTime d z < zoneTime d k)))
   \<and> ((\<forall>z. zoneTime d z = 0) \<longrightarrow> getDominantZone d = None)
   \<and> getDominantZone (d\<lparr>zd_unknown := u\<rparr>) = getDominantZone d"
  using dominant_some [of d] dominant_none [of d] dominant_unknown [where d = d and u = u] by blast

theorem getDominantZone_largest_lowest_witness:
  "getDominantZone \<lparr>zd_zone1 = 10, zd_zone2 = 30, zd_zone3 = 30, zd_zone4 = 5, zd_zone5 = 0, zd_unknown = 100\<rparr> = Some Zone2
   \<and> getDominantZone \<lparr>zd_zone1 = 0, zd_zone2 = 0, zd_zone3 = 0, zd_zone4 = 0, zd_zone5 = 0, zd_unknown = 100\<rparr> = None"
proof -
  let ?d = "\<lparr>zd_zone1 = 10, zd_zone2 = 30, zd_zone3 = 30, zd_zone4 = 5, zd_zone5 = 0, zd_unknown = 100\<rparr>"
  let ?e = "\<lparr>zd_zone1 = 0, zd_zone2 = 0, zd_zone3 = 0, zd_zone4 = 0, zd_zone5 = 0, zd_unknown = 100\<rparr>"
  have "\<exists>z. zoneTime ?d z > 0" by (rule exI [of _ Zone1]) simp
  with getDominantZone_largest_lowest [of ?d 0] obtain k where
    k: "getDominantZone ?d = Some k" "\<forall>z. zoneTime ?d z \<le> zoneTime ?d k"
       "\<forall>z. zoneIndex z < zoneIndex k \<longrightarrow> zoneTime ?d z < zoneTime ?d k"
    by blast
  from k(2) have "zoneTime ?d Zone2 \<le> zoneTime ?d k" by blast
  moreover from k(3) have "zoneIndex Zone2 < zoneIndex k \<longrightarrow> zoneTime ?d Zone2 < zoneTime ?d k" by blast
  ultimately have "k = Zone2" by (cases k) simp_all
  with k(1) have a: "getDominantZone ?d = Some Zone2" by simp
  have "\<forall>z. zoneTime ?e z = 0" unfolding zone_all by simp
  with getDominantZone_largest_lowest [of ?e 0] have b: "getDominantZone ?e = None" by blast
  from a b show ?thesis by simp
qed

subsection \<open>Zone lookup and time in zones\<close>

text \<open>
  \<open>getZoneForHeartRate\<close> takes the first zone of the list whose band holds the heart rate, both
  bounds included. The lemmas below follow the lookup through the list, then the second loop
  of \<open>calculateTimeInZones\<close> through every interval of every lap: with five zones or more
  the calculation returns a distribution, and each of its six buckets holds the time of all
  the intervals that \<open>intervalBucket\<close> assigns to it.
\<close>

lemma find_first_index:
  assumes "i < length xs" and "P (xs ! i)" and "\<forall>j<i. \<not> P (xs ! j)"
  shows "List.find P xs = Some (xs ! i)"
  using assms by (auto simp: find_Some_iff)

lemma ascending_length:
  assumes "zonesAscending zones"
  shows "length zones = 5"
proof -
  from assms have "length (map z_zone zones) = length [Zone1, Zone2, Zone3, Zone4, Zone5]"
    unfolding zonesAscending_def by simp
  then show ?thesis by simp
qed

lemma ascending_max_le_last:
  assumes "zonesAscending zones" and "z \<in> set zones"
  shows "z_maxHR z \<le> z_maxHR (zones ! 4)"
proof -
  from assms(2) obtain i where i: "i < length zones" "z = zones ! i"
    by (auto simp: in_set_conv_nth)
  have len: "length zones = 5" using assms(1) by (rule ascending_length)
  have "sorted (map z_maxHR zones)" using assms(1) unfolding zonesAscending_def by simp
  then have "map z_maxHR zones ! i \<le> map z_maxHR zones ! 4"
    using i(1) len by (intro sorted_nth_mono) simp_all
  then show ?thesis using i len by simp
qed

lemma ascending_first_le_min:
  assumes "zonesAscending zones" and "z \<in> set zones"
  shows "z_minHR (zones ! 0) \<le> z_minHR z"
proof -
  from assms(2) obtain i where i: "i < length zones" "z = zones ! i"
    by (auto simp: in_set_conv_nth)
  have len: "length zones = 5" using assms(1) by (rule ascending_length)
  have "sorted (map z_minHR zones)" using assms(1) unfolding zonesAscending_def by simp
  then have "map z_minHR zones ! 0 \<le> map z_minHR zones ! i"
    using i(1) len by (intro sorted_nth_mono) simp_all
  then show ?thesis using i len by simp
qed

lemma ascending_first_le_last:
  assumes "zonesAscending zones"
  shows "z_minHR (zones ! 0) \<le> z_maxHR (zones ! 4)"
proof -
  have len: "length zones = 5" using assms by (rule ascending_length)
  then have m: "zones ! 4 \<in> set zones" by simp
  have "z_minHR (zones ! 0) \<le> z_minHR (zones ! 4)"
    using ascending_first_le_min [OF assms m] .
  moreover have "z_minHR (zones ! 4) \<le> z_maxHR (zones ! 4)"
    using assms m unfolding zonesAscending_def by blast
  ultimately show ?thesis by simp
qed

lemma in_no_band:
  assumes "length zones = 5" and "\<forall>z \<in> set zones. \<not> inBand hr z"
  shows "getZoneForHeartRate hr zones =
           Inr (if hr > z_maxHR (zones ! 4) then Some Zone5
                else if hr < z_minHR (zones ! 0) then Some Zone1 else None)"
proof -
  have "List.find (inBand hr) zones = None" using assms(2) by (simp add: find_None_iff)
  then show ?thesis using assms(1) by (simp add: getZoneForHeartRate_def)
qed

lemma above_all_bands:
  assumes "zonesAscending zones" and "hr > z_maxHR (zones ! 4)"
  shows "getZoneForHeartRate hr zones = Inr (Some Zone5)"
proof -
  have "\<forall>z \<in> set zones. \<not> inBand hr z"
    using ascending_max_le_last [OF assms(1)] assms(2) unfolding inBand_def by fastforce
  from in_no_band [OF ascending_length [OF assms(1)] this] assms(2) show ?thesis by simp
qed

lemma below_all_bands:
  assumes "zonesAscending zones" and "hr < z_minHR (zones ! 0)"
  shows "getZoneForHeartRate hr zones = Inr (Some Zone1)"
proof -
  have "\<forall>z \<in> set zones. \<not> inBand hr z"
    using ascending_first_le_min [OF assms(1)] assms(2) unfolding inBand_def by fastforce
  moreover have "\<not> hr > z_maxHR (zones ! 4)"
    using ascending_first_le_last [OF assms(1)] assms(2) by simp
  ultimately show ?thesis
    using in_no_band [OF ascending_length [OF assms(1)], of hr] assms(2) by simp
qed

lemma inside_band:
  assumes "length zones = 5" and "i < 5" and "inBand hr (zones ! i)"
    and "\<forall>j<i. \<not> inBand hr (zones ! j)"
  shows "getZoneForHeartRate hr zones = Inr (Some (z_zone (zones ! i)))"
proof -
  have "i < length zones" using assms(1,2) by simp
  then have "List.find (inBand hr) zones = Some (zones ! i)"
    using assms(3,4) by (rule find_first_index)
  then show ?thesis by (simp add: getZoneForHeartRate_def)
qed

lemma gap_is_unknown:
  assumes "getZoneForHeartRate hr zones = Inr None"
  shows "classifyInterval zones d \<lparr>iv_hr = Some hr, iv_duration = t\<rparr> = Inr (addToUnknown t d)"
    and "intervalBucket zones \<lparr>iv_hr = Some hr, iv_duration = t\<rparr> = None"
  using assms by (simp_all add: classifyInterval_def intervalBucket_def)

lemma getZoneForHeartRate_returns:
  assumes "length zones \<ge> 5"
  shows "\<exists>z. getZoneForHeartRate hr zones = Inr z"
  using assms by (simp add: getZoneForHeartRate_def split: option.splits)

lemma classifyInterval_bucket:
  assumes "length zones \<ge> 5"
  shows "classifyInterval zones d iv =
           Inr (case intervalBucket zones iv of
                  None \<Rightarrow> addToUnknown (iv_duration iv) d
                | Some zone \<Rightarrow> addToZone zone (iv_duration iv) d)"
proof (cases "iv_hr iv")
  case None
  then show ?thesis by (simp add: classifyInterval_def intervalBucket_def)
next
  case (Some hr)
  from getZoneForHeartRate_returns [OF assms, of hr] obtain z where
    z: "getZoneForHeartRate hr zones = Inr z" by blast
  show ?thesis using Some z
    by (cases z) (simp_all add: classifyInterval_def intervalBucket_def)
qed

lemma bucketTime_addToUnknown:
  "bucketTime (addToUnknown t d) b = bucketTime d b + (if b = None then t else 0)"
proof (cases b)
  case None
  then show ?thesis by (simp add: addToUnknown_def)
next
  case (Some k)
  then show ?thesis by (cases k) (simp_all add: addToUnknown_def)
qed

lemma bucketTime_addToZone:
  "bucketTime (addToZone z t d) b = bucketTime d b + (if b = Some z then t else 0)"
proof (cases b)
  case None
  then show ?thesis by (cases z) simp_all
next
  case (Some k)
  then show ?thesis by (cases z; cases k) simp_all
qed

lemma classifyAll_buckets:
  assumes "length zones \<ge> 5"
  shows "\<exists>d. classifyAll zones ivs d0 = Inr d
           \<and> (\<forall>b. bucketTime d b
                  = bucketTime d0 b
                    + sum_list (map iv_duration (filter (\<lambda>iv. intervalBucket zones iv = b) ivs)))"
proof (induction ivs arbitrary: d0)
  case Nil
  show ?case by simp
next
  case (Cons iv ivs)
  define d1 where "d1 = (case intervalBucket zones iv of
                  None \<Rightarrow> addToUnknown (iv_duration iv) d0
                | Some zone \<Rightarrow> addToZone zone (iv_duration iv) d0)"
  have step: "classifyInterval zones d0 iv = Inr d1"
    unfolding d1_def using assms by (rule classifyInterval_bucket)
  have d1: "\<And>b. bucketTime d1 b
              = bucketTime d0 b + (if intervalBucket zones iv = b then iv_duration iv else 0)"
    unfolding d1_def
    by (cases "intervalBucket zones iv")
       (auto simp: bucketTime_addToUnknown bucketTime_addToZone)
  from Cons.IH [of d1] obtain d where
    d: "classifyAll zones ivs d1 = Inr d"
       "\<forall>b. bucketTime d b
              = bucketTime d1 b
                + sum_list (map iv_duration (filter (\<lambda>iv. intervalBucket zones iv = b) ivs))"
    by blast
  have "classifyAll zones (iv # ivs) d0 = Inr d" using step d(1) by simp
  moreover have "\<forall>b. bucketTime d b
              = bucketTime d0 b
                + sum_list (map iv_duration
                    (filter (\<lambda>iv. intervalBucket zones iv = b) (iv # ivs)))"
    using d(2) d1 by simp
  ultimately show ?case by blast
qed

lemma calculateTimeInZones_buckets:
  assumes "length zones \<ge> 5"
  shows "\<exists>d. calculateTimeInZones a zones = Inr d \<and> (\<forall>b. bucketTime d b = timeIn zones a b)"
proof -
  from classifyAll_buckets [OF assms, of "collectIntervals a" emptyDistribution] obtain d where
    d: "classifyAll zones (collectIntervals a) emptyDistribution = Inr d"
       "\<forall>b. bucketTime d b
              = bucketTime emptyDistribution b
                + sum_list (map iv_duration
                    (filter (\<lambda>iv. intervalBucket zones iv = b) (collectIntervals a)))"
    by blast
  have e: "\<And>b. bucketTime emptyDistribution b = 0"
  proof -
    fix b show "bucketTime emptyDistribution b = 0"
    proof (cases b)
      case None then show ?thesis by (simp add: emptyDistribution_def)
    next
      case (Some k) then show ?thesis by (cases k) (simp_all add: emptyDistribution_def)
    qed
  qed
  from d e show ?thesis by (simp add: calculateTimeInZones_def timeIn_def)
qed

lemma unknown_intervals:
  assumes "length zones \<ge> 5"
  shows "(intervalBucket zones iv = None)
         = (case iv_hr iv of
              None \<Rightarrow> True
            | Some hr \<Rightarrow> hr = 0 \<or> getZoneForHeartRate hr zones = Inr None)"
proof (cases "iv_hr iv")
  case None
  then show ?thesis by (simp add: intervalBucket_def)
next
  case (Some hr)
  from getZoneForHeartRate_returns [OF assms, of hr] obtain z where
    "getZoneForHeartRate hr zones = Inr z" by blast
  with Some show ?thesis by (cases z) (simp_all add: intervalBucket_def)
qed

lemma unknown_time:
  assumes "length zones \<ge> 5"
  shows "timeIn zones a None
         = sum_list (map iv_duration
             (filter (\<lambda>iv. case iv_hr iv of
                              None \<Rightarrow> True
                            | Some hr \<Rightarrow> hr = 0 \<or> getZoneForHeartRate hr zones = Inr None)
                (collectIntervals a)))"
  by (simp add: timeIn_def unknown_intervals [OF assms])

lemma calculateTimeInZones_unknown:
  assumes "length zones \<ge> 5"
  shows "\<exists>d'. calculateTimeInZones a zones = Inr d'
              \<and> (\<forall>b. bucketTime d' b = timeIn zones a b)
              \<and> zd_unknown d'
                  = sum_list (map iv_duration
                      (filter (\<lambda>iv. case iv_hr iv of
                                       None \<Rightarrow> True
                                     | Some hr \<Rightarrow> hr = 0 \<or> getZoneForHeartRate hr zones = Inr None)
                         (collectIntervals a)))"
proof -
  from calculateTimeInZones_buckets [OF assms, of a] obtain d' where
    d': "calculateTimeInZones a zones = Inr d'" "\<forall>b. bucketTime d' b = timeIn zones a b"
    by blast
  from d'(2) have "bucketTime d' None = timeIn zones a None" by blast
  then have "zd_unknown d' = timeIn zones a None" by simp
  with d' unknown_time [OF assms, of a] show ?thesis by simp
qed

lemma zone_intervals:
  assumes "length zones \<ge> 5"
  shows "(intervalBucket zones iv = Some z)
         = (case iv_hr iv of
              None \<Rightarrow> False
            | Some hr \<Rightarrow> hr \<noteq> 0 \<and> getZoneForHeartRate hr zones = Inr (Some z))"
proof (cases "iv_hr iv")
  case None
  then show ?thesis by (simp add: intervalBucket_def)
next
  case (Some hr)
  from getZoneForHeartRate_returns [OF assms, of hr] obtain k where
    "getZoneForHeartRate hr zones = Inr k" by blast
  with Some show ?thesis by (cases k) (simp_all add: intervalBucket_def)
qed

lemma zone_time:
  assumes "length zones \<ge> 5"
  shows "timeIn zones a (Some z)
         = sum_list (map iv_duration
             (filter (\<lambda>iv. case iv_hr iv of
                              None \<Rightarrow> False
                            | Some hr \<Rightarrow> hr \<noteq> 0 \<and> getZoneForHeartRate hr zones = Inr (Some z))
                (collectIntervals a)))"
  by (simp add: timeIn_def zone_intervals [OF assms])

lemma calculateTimeInZones_sums:
  assumes "length zones \<ge> 5"
  shows "\<exists>d'. calculateTimeInZones a zones = Inr d'
              \<and> (\<forall>b. bucketTime d' b = timeIn zones a b)
              \<and> zd_unknown d'
                  = sum_list (map iv_duration
                      (filter (\<lambda>iv. case iv_hr iv of
                                       None \<Rightarrow> True
                                     | Some hr \<Rightarrow> hr = 0 \<or> getZoneForHeartRate hr zones = Inr None)
                         (collectIntervals a)))
              \<and> (\<forall>z. zoneTime d' z
                  = sum_list (map iv_duration
                      (filter (\<lambda>iv. case iv_hr iv of
                                       None \<Rightarrow> False
                                     | Some hr \<Rightarrow> hr \<noteq> 0
                                         \<and> getZoneForHeartRate hr zones = Inr (Some z))
                         (collectIntervals a))))"
proof -
  from calculateTimeInZones_buckets [OF assms, of a] obtain d' where
    d': "calculateTimeInZones a zones = Inr d'" "\<forall>b. bucketTime d' b = timeIn zones a b"
    by blast
  from d'(2) have "bucketTime d' None = timeIn zones a None" by blast
  then have u: "zd_unknown d' = timeIn zones a None" by simp
  have z: "zoneTime d' z = timeIn zones a (Some z)" for z
  proof -
    from d'(2) have "bucketTime d' (Some z) = timeIn zones a (Some z)" by blast
    then show ?thesis by simp
  qed
  show ?thesis
    using d' u z unknown_time [OF assms, of a] zone_time [OF assms, of a] by simp
qed

lemma gapZones_ascending: "zonesAscending gapZones"
  by (simp add: zonesAscending_def gapZones_def manualZone_def)

lemma ageZones190_ascending: "zonesAscending ageZones190"
  by (simp add: zonesAscending_def ageZones190_def manualZone_def)

lemma twoLapRun_intervals:
  "collectIntervals twoLapRun =
     [\<lparr>iv_hr = Some 120, iv_duration = 10\<rparr>, \<lparr>iv_hr = Some 0, iv_duration = 15\<rparr>,
      \<lparr>iv_hr = Some 112, iv_duration = 5\<rparr>,
      \<lparr>iv_hr = Some 0, iv_duration = 7\<rparr>, \<lparr>iv_hr = None, iv_duration = 3\<rparr>,
      \<lparr>iv_hr = Some 200, iv_duration = 5\<rparr>, \<lparr>iv_hr = Some 50, iv_duration = 5\<rparr>]"
  by (simp add: collectIntervals_def twoLapRun_def lapOf_def sample_def)

lemma gapZones_lookups:
  "getZoneForHeartRate 120 gapZones = Inr (Some Zone2)"
  "getZoneForHeartRate 112 gapZones = Inr None"
  "getZoneForHeartRate 200 gapZones = Inr (Some Zone5)"
  "getZoneForHeartRate 50 gapZones = Inr (Some Zone1)"
  by (simp_all add: getZoneForHeartRate_def gapZones_def manualZone_def inBand_def)

lemma ageZones190_lookups:
  "getZoneForHeartRate 120 ageZones190 = Inr (Some Zone2)"
  "getZoneForHeartRate 112 ageZones190 = Inr (Some Zone1)"
  "getZoneForHeartRate 200 ageZones190 = Inr (Some Zone5)"
  "getZoneForHeartRate 50 ageZones190 = Inr (Some Zone1)"
  by (simp_all add: getZoneForHeartRate_def ageZones190_def manualZone_def inBand_def)

lemma twoLapRun_gapZones_times:
  "timeIn gapZones twoLapRun None = 30"
  "timeIn gapZones twoLapRun (Some Zone1) = 5"
  "timeIn gapZones twoLapRun (Some Zone2) = 10"
  "timeIn gapZones twoLapRun (Some Zone3) = 0"
  "timeIn gapZones twoLapRun (Some Zone4) = 0"
  "timeIn gapZones twoLapRun (Some Zone5) = 5"
  by (simp_all add: timeIn_def twoLapRun_intervals intervalBucket_def gapZones_lookups)

lemma twoLapRun_ageZones190_times:
  "timeIn ageZones190 twoLapRun None = 25"
  "timeIn ageZones190 twoLapRun (Some Zone1) = 10"
  "timeIn ageZones190 twoLapRun (Some Zone2) = 10"
  "timeIn ageZones190 twoLapRun (Some Zone3) = 0"
  "timeIn ageZones190 twoLapRun (Some Zone4) = 0"
  "timeIn ageZones190 twoLapRun (Some Zone5) = 5"
  by (simp_all add: timeIn_def twoLapRun_intervals intervalBucket_def ageZones190_lookups)

lemma distribution_by_buckets:
  assumes "bucketTime d None = u" and "bucketTime d (Some Zone1) = t1"
    and "bucketTime d (Some Zone2) = t2" and "bucketTime d (Some Zone3) = t3"
    and "bucketTime d (Some Zone4) = t4" and "bucketTime d (Some Zone5) = t5"
  shows "d = \<lparr>zd_zone1 = t1, zd_zone2 = t2, zd_zone3 = t3, zd_zone4 = t4, zd_zone5 = t5,
              zd_unknown = u\<rparr>"
  using assms by (cases d) simp

text \<open>
  Claim C7, as stated, reads: a heart rate within a zone's bounds maps to that zone. The zones
  computed from a maximum heart rate share their bounds: with the maximum 190 the value 133
  is the upper bound of zone 2 and the lower bound of zone 3. It lies within the bounds of
  zone 3, and the lookup answers zone 2.
\<close>

theorem shared_bound_counterexample:
  "zonesAscending ageZones190
   \<and> z_zone (ageZones190 ! 2) = Zone3
   \<and> inBand 133 (ageZones190 ! 2)
   \<and> getZoneForHeartRate 133 ageZones190 = Inr (Some Zone2)"
  using ageZones190_ascending
  by (simp add: ageZones190_def manualZone_def inBand_def getZoneForHeartRate_def)

text \<open>
  Claim C7, amended: over a list of five zones, a heart rate maps to the first zone of the
  list whose band holds it (of two zones that share a bound, the earlier one). A heart rate
  that no band holds maps to zone 5 when it lies above the maximum of the fifth zone, else to
  zone 1 when it lies below the minimum of the first zone, else to no zone. When the zones
  are in ascending order, every heart rate above the maximum of zone 5 maps to zone 5 and
  every heart rate below the minimum of zone 1 maps to zone 1. A heart rate that maps to no
  zone is counted as unknown: \<open>calculateTimeInZones\<close> returns a distribution in which each
  bucket holds the time of all intervals of all laps assigned to it, and whose unknown time
  is the time of all intervals whose heart rate is missing, 0, or mapped to no zone.
\<close>

theorem getZoneForHeartRate_first_band_then_clamp:
  assumes "length zones = 5"
  shows "(\<forall>i<5. inBand hr (zones ! i) \<and> (\<forall>j<i. \<not> inBand hr (zones ! j))
            \<longrightarrow> getZoneForHeartRate hr zones = Inr (Some (z_zone (zones ! i))))
       \<and> ((\<forall>z \<in> set zones. \<not> inBand hr z)
            \<longrightarrow> getZoneForHeartRate hr zones =
                  Inr (if hr > z_maxHR (zones ! 4) then Some Zone5
                       else if hr < z_minHR (zones ! 0) then Some Zone1 else None))
       \<and> (zonesAscending zones
            \<longrightarrow> (hr > z_maxHR (zones ! 4) \<longrightarrow> getZoneForHeartRate hr zones = Inr (Some Zone5))
              \<and> (hr < z_minHR (zones ! 0) \<longrightarrow> getZoneForHeartRate hr zones = Inr (Some Zone1)))
       \<and> (getZoneForHeartRate hr zones = Inr None
            \<longrightarrow> intervalBucket zones \<lparr>iv_hr = Some hr, iv_duration = t\<rparr> = None
              \<and> classifyInterval zones d \<lparr>iv_hr = Some hr, iv_duration = t\<rparr>
                  = Inr (addToUnknown t d))
       \<and> (\<exists>d'. calculateTimeInZones a zones = Inr d'
                \<and> (\<forall>b. bucketTime d' b = timeIn zones a b)
                \<and> zd_unknown d'
                    = sum_list (map iv_duration
                        (filter (\<lambda>iv. case iv_hr iv of
                                         None \<Rightarrow> True
                                       | Some hr \<Rightarrow> hr = 0
                                           \<or> getZoneForHeartRate hr zones = Inr None)
                           (collectIntervals a))))"
proof (intro conjI allI impI)
  fix i assume "i < 5" and "inBand hr (zones ! i) \<and> (\<forall>j<i. \<not> inBand hr (zones ! j))"
  then show "getZoneForHeartRate hr zones = Inr (Some (z_zone (zones ! i)))"
    using inside_band [OF assms] by blast
next
  assume "\<forall>z \<in> set zones. \<not> inBand hr z"
  then show "getZoneForHeartRate hr zones =
                  Inr (if hr > z_maxHR (zones ! 4) then Some Zone5
                       else if hr < z_minHR (zones ! 0) then Some Zone1 else None)"
    using assms by (intro in_no_band)
next
  assume "zonesAscending zones" and "hr > z_maxHR (zones ! 4)"
  then show "getZoneForHeartRate hr zones = Inr (Some Zone5)" by (rule above_all_bands)
next
  assume "zonesAscending zones" and "hr < z_minHR (zones ! 0)"
  then show "getZoneForHeartRate hr zones = Inr (Some Zone1)" by (rule below_all_bands)
next
  assume "getZoneForHeartRate hr zones = Inr None"
  then show "intervalBucket zones \<lparr>iv_hr = Some hr, iv_duration = t\<rparr> = None"
    by (rule gap_is_unknown)
next
  assume "getZoneForHeartRate hr zones = Inr None"
  then show "classifyInterval zones d \<lparr>iv_hr = Some hr, iv_duration = t\<rparr> = Inr (addToUnknown t d)"
    by (rule gap_is_unknown)
next
  have "length zones \<ge> 5" using assms by simp
  then show "\<exists>d'. calculateTimeInZones a zones = Inr d'
                \<and> (\<forall>b. bucketTime d' b = timeIn zones a b)
                \<and> zd_unknown d'
                    = sum_list (map iv_duration
                        (filter (\<lambda>iv. case iv_hr iv of
                                         None \<Rightarrow> True
                                       | Some hr \<Rightarrow> hr = 0
                                           \<or> getZoneForHeartRate hr zones = Inr None)
                           (collectIntervals a)))"
    by (rule calculateTimeInZones_unknown)
qed

theorem getZoneForHeartRate_first_band_then_clamp_witness:
  "getZoneForHeartRate 133 ageZones190 = Inr (Some Zone2)
   \<and> getZoneForHeartRate 120 gapZones = Inr (Some Zone2)
   \<and> getZoneForHeartRate 200 gapZones = Inr (Some Zone5)
   \<and> getZoneForHeartRate 50 gapZones = Inr (Some Zone1)
   \<and> getZoneForHeartRate 112 gapZones = Inr None
   \<and> calculateTimeInZones twoLapRun gapZones =
       Inr \<lparr>zd_zone1 = 5, zd_zone2 = 10, zd_zone3 = 0, zd_zone4 = 0, zd_zone5 = 5,
            zd_unknown = 30\<rparr>"
proof -
  have lg: "length gapZones = 5" and la: "length ageZones190 = 5"
    by (simp_all add: gapZones_def ageZones190_def)
  note tg = getZoneForHeartRate_first_band_then_clamp [OF lg]
  note ta = getZoneForHeartRate_first_band_then_clamp [OF la]
  have nth: "gapZones ! 0 = manualZone Zone1 95 110" "gapZones ! 1 = manualZone Zone2 114 133"
    "gapZones ! Suc 0 = manualZone Zone2 114 133" "gapZones ! 4 = manualZone Zone5 171 190"
    "ageZones190 ! 0 = manualZone Zone1 95 114" "ageZones190 ! 1 = manualZone Zone2 114 133"
    "ageZones190 ! Suc 0 = manualZone Zone2 114 133"
    by (simp_all add: gapZones_def ageZones190_def)
  have one: "(1::nat) < 5" by simp
  have a: "getZoneForHeartRate 133 ageZones190 = Inr (Some Zone2)"
  proof -
    have "inBand 133 (ageZones190 ! 1) \<and> (\<forall>j<1. \<not> inBand 133 (ageZones190 ! j))"
      by (simp add: nth inBand_def manualZone_def)
    with one have "getZoneForHeartRate 133 ageZones190 = Inr (Some (z_zone (ageZones190 ! 1)))"
      using ta [of 133 0 emptyDistribution twoLapRun] by blast
    then show ?thesis by (simp add: nth manualZone_def)
  qed
  have b: "getZoneForHeartRate 120 gapZones = Inr (Some Zone2)"
  proof -
    have "inBand 120 (gapZones ! 1) \<and> (\<forall>j<1. \<not> inBand 120 (gapZones ! j))"
      by (simp add: nth inBand_def manualZone_def)
    with one have "getZoneForHeartRate 120 gapZones = Inr (Some (z_zone (gapZones ! 1)))"
      using tg [of 120 0 emptyDistribution twoLapRun] by blast
    then show ?thesis by (simp add: nth manualZone_def)
  qed
  have c: "getZoneForHeartRate 200 gapZones = Inr (Some Zone5)"
    using tg [of 200 0 emptyDistribution twoLapRun] gapZones_ascending
    by (simp add: nth manualZone_def)
  have d: "getZoneForHeartRate 50 gapZones = Inr (Some Zone1)"
    using tg [of 50 0 emptyDistribution twoLapRun] gapZones_ascending
    by (simp add: nth manualZone_def)
  have "\<forall>z \<in> set gapZones. \<not> inBand 112 z"
    by (simp add: gapZones_def inBand_def manualZone_def)
  with tg [of 112 0 emptyDistribution twoLapRun]
  have e: "getZoneForHeartRate 112 gapZones = Inr None"
    by (simp add: nth manualZone_def)
  from tg [of 112 0 emptyDistribution twoLapRun] obtain d' where
    d': "calculateTimeInZones twoLapRun gapZones = Inr d'"
        "\<forall>b. bucketTime d' b = timeIn gapZones twoLapRun b" by blast
  have "d' = \<lparr>zd_zone1 = 5, zd_zone2 = 10, zd_zone3 = 0, zd_zone4 = 0, zd_zone5 = 5,
            zd_unknown = 30\<rparr>"
    by (rule distribution_by_buckets) (simp_all only: d'(2) twoLapRun_gapZones_times)
  with d'(1) have f: "calculateTimeInZones twoLapRun gapZones =
       Inr \<lparr>zd_zone1 = 5, zd_zone2 = 10, zd_zone3 = 0, zd_zone4 = 0, zd_zone5 = 5,
            zd_unknown = 30\<rparr>" by simp
  from a b c d e f show ?thesis by blast
qed

text \<open>
  Claim C10: a trackpoint whose heart rate is 0 is treated as one with no heart rate; its
  interval is added to the unknown time, not to a zone. This holds of the loop body, of an
  activity with a single interval, and of the whole calculation: for every activity and
  every list of five zones or more, \<open>calculateTimeInZones\<close> returns a distribution whose
  unknown time is the time of all the intervals, of all laps, whose heart rate is missing, 0,
  or mapped to no zone, and each of whose zone buckets holds the time of all intervals with a
  heart rate other than 0 that the lookup maps to that zone. The sums are those of the exact
  arithmetic of the model.
\<close>

theorem zero_heart_rate_is_unknown:
  "classifyInterval zones d \<lparr>iv_hr = Some 0, iv_duration = t\<rparr> = Inr (addToUnknown t d)
   \<and> classifyInterval zones d \<lparr>iv_hr = Some 0, iv_duration = t\<rparr>
       = classifyInterval zones d \<lparr>iv_hr = None, iv_duration = t\<rparr>
   \<and> calculateTimeInZones
        (a\<lparr>a_laps := [lap\<lparr>lap_trackpoints := [tp\<lparr>tp_heartRate := Some 0\<rparr>, tp']\<rparr>]\<rparr>) zones
       = Inr (addToUnknown (real_of_int (tp_time tp' - tp_time tp) / 1000) emptyDistribution)
   \<and> intervalBucket zones \<lparr>iv_hr = Some 0, iv_duration = t\<rparr> = None
   \<and> (length zones \<ge> 5
        \<longrightarrow> (\<exists>d'. calculateTimeInZones a zones = Inr d'
                  \<and> (\<forall>b. bucketTime d' b = timeIn zones a b)
                  \<and> zd_unknown d'
                      = sum_list (map iv_duration
                          (filter (\<lambda>iv. case iv_hr iv of
                                           None \<Rightarrow> True
                                         | Some hr \<Rightarrow> hr = 0
                                             \<or> getZoneForHeartRate hr zones = Inr None)
                             (collectIntervals a)))
                  \<and> (\<forall>z. zoneTime d' z
                      = sum_list (map iv_duration
                          (filter (\<lambda>iv. case iv_hr iv of
                                           None \<Rightarrow> False
                                         | Some hr \<Rightarrow> hr \<noteq> 0
                                             \<and> getZoneForHeartRate hr zones = Inr (Some z))
                             (collectIntervals a))))))"
proof (intro conjI impI)
  show "classifyInterval zones d \<lparr>iv_hr = Some 0, iv_duration = t\<rparr> = Inr (addToUnknown t d)"
    by (simp add: classifyInterval_def)
  show "classifyInterval zones d \<lparr>iv_hr = Some 0, iv_duration = t\<rparr>
       = classifyInterval zones d \<lparr>iv_hr = None, iv_duration = t\<rparr>"
    by (simp add: classifyInterval_def)
  show "calculateTimeInZones
        (a\<lparr>a_laps := [lap\<lparr>lap_trackpoints := [tp\<lparr>tp_heartRate := Some 0\<rparr>, tp']\<rparr>]\<rparr>) zones
       = Inr (addToUnknown (real_of_int (tp_time tp' - tp_time tp) / 1000) emptyDistribution)"
    by (simp add: classifyInterval_def calculateTimeInZones_def collectIntervals_def)
  show "intervalBucket zones \<lparr>iv_hr = Some 0, iv_duration = t\<rparr> = None"
    by (simp add: intervalBucket_def)
next
  assume "length zones \<ge> 5"
  then show "\<exists>d'. calculateTimeInZones a zones = Inr d'
                  \<and> (\<forall>b. bucketTime d' b = timeIn zones a b)
                  \<and> zd_unknown d'
                      = sum_list (map iv_duration
                          (filter (\<lambda>iv. case iv_hr iv of
                                           None \<Rightarrow> True
                                         | Some hr \<Rightarrow> hr = 0
                                             \<or> getZoneForHeartRate hr zones = Inr None)
                             (collectIntervals a)))
                  \<and> (\<forall>z. zoneTime d' z
                      = sum_list (map iv_duration
                          (filter (\<lambda>iv. case iv_hr iv of
                                           None \<Rightarrow> False
                                         | Some hr \<Rightarrow> hr \<noteq> 0
                                             \<and> getZoneForHeartRate hr zones = Inr (Some z))
                             (collectIntervals a))))"
    by (rule calculateTimeInZones_sums)
qed

theorem zero_heart_rate_is_unknown_witness:
  "length ageZones190 \<ge> 5
   \<and> getZoneForHeartRate 0 ageZones190 = Inr (Some Zone1)
   \<and> calculateTimeInZones twoLapRun ageZones190 =
       Inr \<lparr>zd_zone1 = 10, zd_zone2 = 10, zd_zone3 = 0, zd_zone4 = 0, zd_zone5 = 5,
            zd_unknown = 25\<rparr>"
proof -
  have la: "5 \<le> length ageZones190" by (simp add: ageZones190_def)
  from zero_heart_rate_is_unknown [where zones = ageZones190 and a = twoLapRun] la
  obtain d' where
    d': "calculateTimeInZones twoLapRun ageZones190 = Inr d'"
        "\<forall>b. bucketTime d' b = timeIn ageZones190 twoLapRun b" by blast
  have "d' = \<lparr>zd_zone1 = 10, zd_zone2 = 10, zd_zone3 = 0, zd_zone4 = 0, zd_zone5 = 5,
            zd_unknown = 25\<rparr>"
    by (rule distribution_by_buckets) (simp_all only: d'(2) twoLapRun_ageZones190_times)
  moreover have "getZoneForHeartRate 0 ageZones190 = Inr (Some Zone1)"
    using below_all_bands [OF ageZones190_ascending, of 0]
    by (simp add: ageZones190_def manualZone_def)
  ultimately show ?thesis using d'(1) la by simp
qed

text \<open>The lookup itself would put the heart rate 0 into zone 1.\<close>

lemma zero_would_clamp_to_zone1: "getZoneForHeartRate 0 gapZones = Inr (Some Zone1)"
  using below_all_bands [OF gapZones_ascending, of 0] by (simp add: gapZones_def manualZone_def)

subsection \<open>Statistics engine and period comparison\<close>

text \<open>
  Claim C4: for an activity whose laps hold no trackpoint at all and whose total time is
  positive, \<open>calculateStatistics\<close> returns the average speed distance / time, the maximum speed
  0, the distance, the time and the calories of the activity, and no heart-rate, cadence,
  altitude, elevation or pace field.
\<close>

theorem calculateStatistics_no_trackpoints:
  assumes "concat (map lap_trackpoints (a_laps a)) = []" and "a_totalTimeSeconds a > 0"
  shows "calculateStatistics a =
     \<lparr>st_totalDistance = a_distanceMeters a,
      st_totalTime = a_totalTimeSeconds a,
      st_averageSpeed = a_distanceMeters a / a_totalTimeSeconds a,
      st_maxSpeed = 0,
      st_averageHeartRate = None, st_maxHeartRate = None, st_minHeartRate = None,
      st_averageCadence = None, st_maxCadence = None,
      st_totalCalories = a_calories a,
      st_elevationGain = None, st_elevationLoss = None,
      st_minAltitude = None, st_maxAltitude = None,
      st_averagePace = None, st_maxPace = None\<rparr>"
  using assms(1) by (simp add: calculateStatistics_def)

theorem calculateStatistics_no_trackpoints_witness:
  "concat (map lap_trackpoints (a_laps (runWithoutTrackpoints 10000 3000))) = []
   \<and> a_totalTimeSeconds (runWithoutTrackpoints 10000 3000) > 0
   \<and> calculateStatistics (runWithoutTrackpoints 10000 3000) =
     \<lparr>st_totalDistance = 10000, st_totalTime = 3000, st_averageSpeed = 10 / 3, st_maxSpeed = 0,
      st_averageHeartRate = None, st_maxHeartRate = None, st_minHeartRate = None,
      st_averageCadence = None, st_maxCadence = None,
      st_totalCalories = Some 650,
      st_elevationGain = None, st_elevationLoss = None,
      st_minAltitude = None, st_maxAltitude = None,
      st_averagePace = None, st_maxPace = None\<rparr>"
  using calculateStatistics_no_trackpoints [of "runWithoutTrackpoints 10000 3000"]
  by (simp add: runWithoutTrackpoints_def emptyLap_def)

text \<open>Past the early return there is a lap, so \<open>Math.max\<close> over the laps has an argument.\<close>

lemma trackpoints_have_lap:
  "concat (map lap_trackpoints (a_laps a)) \<noteq> [] \<Longrightarrow> map lapMaxSpeedOrZero (a_laps a) \<noteq> []"
  by auto

text \<open>
  Claim C9: the percentage change from a previous value 0 is 100 when the current value is
  positive and 0 otherwise; from a previous value other than 0 it is
  ((new - old) / old) * 100; \<open>comparePeriods\<close> computes each of its four changes (distance,
  time, activities, speed) in this way from the previous and the current period, so that a
  previous total distance 0 and a positive current total distance give the change 100.
\<close>

theorem percentage_change_convention:
  "calculatePercentageChange 0 new = (if new > 0 then 100 else 0)
   \<and> (old \<noteq> 0 \<longrightarrow> calculatePercentageChange old new = ((new - old) / old) * 100)
   \<and> ch_distance (cd_changes (comparePeriods lib activities period date))
       = calculatePercentageChange
           (ps_totalDistance (cd_previous (comparePeriods lib activities period date)))
           (ps_totalDistance (cd_current (comparePeriods lib activities period date)))
   \<and> ch_time (cd_changes (comparePeriods lib activities period date))
       = calculatePercentageChange
           (ps_totalTime (cd_previous (comparePeriods lib activities period date)))
           (ps_totalTime (cd_current (comparePeriods lib activities period date)))
   \<and> ch_activities (cd_changes (comparePeriods lib activities period date))
       = calculatePercentageChange
           (ps_totalActivities (cd_previous (comparePeriods lib activities period date)))
           (ps_totalActivities (cd_current (comparePeriods lib activities period date)))
   \<and> ch_speed (cd_changes (comparePeriods lib activities period date))
       = calculatePercentageChange
           (ps_averageSpeed (cd_previous (comparePeriods lib activities period date)))
           (ps_averageSpeed (cd_current (comparePeriods lib activities period date)))
   \<and> (ps_totalDistance (cd_previous (comparePeriods lib activities period date)) = 0
        \<and> ps_totalDistance (cd_current (comparePeriods lib activities period date)) > 0
      \<longrightarrow> ch_distance (cd_changes (comparePeriods lib activities period date)) = 100)"
  by (simp add: calculatePercentageChange_def comparePeriods_def Let_def)

lemma week_of_example:
  "filterActivitiesByDateRange [runWithoutTrackpoints 10000 3000]
     (getWeekBounds utcWeeks (Date 700000000)) = [runWithoutTrackpoints 10000 3000]"
  by (simp add: filterActivitiesByDateRange_def getWeekBounds_def utcWeeks_def
      runWithoutTrackpoints_def)

lemma previous_start:
  "rng_start (getWeekBounds utcWeeks (subWeeks utcWeeks (Date 700000000))) = Date (- 259200000)"
  by (simp add: getWeekBounds_def utcWeeks_def)

lemma week_before_example:
  "filterActivitiesByDateRange [runWithoutTrackpoints 10000 3000]
     (getWeekBounds utcWeeks (Date (- 259200000))) = []"
  by (simp add: filterActivitiesByDateRange_def getWeekBounds_def utcWeeks_def
      runWithoutTrackpoints_def)

lemma current_distance:
  "ps_totalDistance (cd_current (comparePeriods utcWeeks [runWithoutTrackpoints 10000 3000] Week (Date 700000000))) = 10000"
  by (simp add: comparePeriods_def calculatePeriodStats_def Let_def week_of_example
      aggregateActivities_def split_beta) (simp add: runWithoutTrackpoints_def)

lemma previous_distance:
  "ps_totalDistance (cd_previous (comparePeriods utcWeeks [runWithoutTrackpoints 10000 3000] Week (Date 700000000))) = 0"
  by (simp add: comparePeriods_def calculatePeriodStats_def Let_def previous_start week_before_example
      aggregateActivities_def split_beta)

theorem percentage_change_convention_witness:
  "ps_totalDistance (cd_previous (comparePeriods utcWeeks [runWithoutTrackpoints 10000 3000] Week (Date 700000000))) = 0
   \<and> ps_totalDistance (cd_current (comparePeriods utcWeeks [runWithoutTrackpoints 10000 3000] Week (Date 700000000))) > 0
   \<and> ch_distance (cd_changes (comparePeriods utcWeeks [runWithoutTrackpoints 10000 3000] Week (Date 700000000))) = 100
   \<and> (4::real) \<noteq> 0 \<and> calculatePercentageChange 4 5 = 25"
  using percentage_change_convention [of 5 4 utcWeeks "[runWithoutTrackpoints 10000 3000]" Week "Date 700000000"]
    current_distance previous_distance
  by simp

subsection \<open>Personal-record detector\<close>

lemma distance_pass_shape:
  assumes "d \<in> set (detectDistanceRecords a rs)"
  shows "dr_isRecord d \<and> dr_recordType d = Some Distance \<and> dr_category d = Some Longest
       \<and> dr_value d = Some (a_distanceMeters a)"
  using assms by (auto simp: detectDistanceRecords_def Let_def split: option.splits if_splits)

lemma speed_pass_shape:
  assumes "d \<in> set (detectSpeedRecords a rs)"
  shows "dr_isRecord d \<and> dr_recordType d = Some Speed
       \<and> (dr_category d = Some Fastest \<and> dr_value d = Some (st_maxSpeed (calculateStatistics a))
          \<or> dr_category d = Some Cat_10km \<and> dr_value d = Some (st_averageSpeed (calculateStatistics a)))"
  using assms by (auto simp: detectSpeedRecords_def Let_def split: option.splits if_splits)

lemma band_shape:
  assumes "d \<in> set (timeRecordForBand a rs e)"
  shows "dr_isRecord d \<and> dr_recordType d = Some Time \<and> dr_category d = Some (fst e)
       \<and> dr_value d = Some (a_totalTimeSeconds a)"
  using assms by (auto simp: timeRecordForBand_def Let_def split: option.splits if_splits)

lemma time_pass_shape:
  assumes "d \<in> set (detectTimeRecords a rs)"
  shows "dr_isRecord d \<and> dr_recordType d = Some Time \<and> (\<exists>c. dr_category d = Some c)
       \<and> dr_value d = Some (a_totalTimeSeconds a)"
proof -
  from assms obtain e where "d \<in> set (timeRecordForBand a rs e)"
    by (auto simp: detectTimeRecords_def)
  then show ?thesis using band_shape by blast
qed

lemma elevation_pass_shape:
  assumes "d \<in> set (detectElevationRecords a rs)"
  shows "dr_isRecord d \<and> dr_recordType d = Some Elevation \<and> dr_category d = Some Highest
       \<and> dr_value d = st_elevationGain (calculateStatistics a)"
  using assms by (auto simp: detectElevationRecords_def Let_def split: option.splits if_splits)

lemma calorie_pass_shape:
  assumes "d \<in> set (detectCalorieRecords a rs)"
  shows "dr_isRecord d \<and> dr_recordType d = Some Calories \<and> dr_category d = Some Longest
       \<and> dr_value d = a_calories a"
  using assms by (auto simp: detectCalorieRecords_def Let_def split: option.splits if_splits)

lemma filter_all: "(\<And>x. x \<in> set xs \<Longrightarrow> P x) \<Longrightarrow> filter P xs = xs"
  by (induction xs) auto

lemma filter_none: "(\<And>x. x \<in> set xs \<Longrightarrow> \<not> P x) \<Longrightarrow> filter P xs = []"
  by (induction xs) auto

lemma detectRecords_passes:
  "detectRecords a rs =
     detectDistanceRecords a rs @ detectSpeedRecords a rs @ detectTimeRecords a rs
     @ detectElevationRecords a rs @ detectCalorieRecords a rs"
  unfolding detectRecords_def
  by (rule filter_all)
     (auto dest: distance_pass_shape speed_pass_shape time_pass_shape elevation_pass_shape
        calorie_pass_shape)

lemma time_results_of_detectRecords:
  "filter (\<lambda>d. dr_recordType d = Some Time) (detectRecords a rs) = detectTimeRecords a rs"
proof -
  have 1: "filter (\<lambda>d. dr_recordType d = Some Time) (detectDistanceRecords a rs) = []"
    by (rule filter_none) (auto dest: distance_pass_shape)
  have 2: "filter (\<lambda>d. dr_recordType d = Some Time) (detectSpeedRecords a rs) = []"
    by (rule filter_none) (auto dest: speed_pass_shape)
  have 3: "filter (\<lambda>d. dr_recordType d = Some Time) (detectTimeRecords a rs) = detectTimeRecords a rs"
    by (rule filter_all) (auto dest: time_pass_shape)
  have 4: "filter (\<lambda>d. dr_recordType d = Some Time) (detectElevationRecords a rs) = []"
    by (rule filter_none) (auto dest: elevation_pass_shape)
  have 5: "filter (\<lambda>d. dr_recordType d = Some Time) (detectCalorieRecords a rs) = []"
    by (rule filter_none) (auto dest: calorie_pass_shape)
  show ?thesis by (simp add: detectRecords_passes 1 2 3 4 5)
qed

lemma time_pass_5km:
  assumes "4500 \<le> a_distanceMeters a" and "a_distanceMeters a \<le> 5500"
  shows "detectTimeRecords a rs
       = timeRecordForBand a rs (Cat_5km, \<lparr>band_min = 4500, band_max = 5500, band_label = ''5 km''\<rparr>)"
  using assms by (simp add: detectTimeRecords_def DISTANCE_CATEGORIES_def timeRecordForBand_def)

text \<open>
  The time pass compares the time of the activity with the record that the lookup finds for
  the band, the first one stored for (time, band, sport): a smaller time is detected, with
  that record's value as previous value and the difference as improvement; a time that is not
  smaller is not.
\<close>

lemma time_pass_against_found_record:
  assumes "4500 \<le> a_distanceMeters a" and "a_distanceMeters a \<le> 5500"
    and "List.find (\<lambda>r. pr_type r = Time \<and> pr_category r = Cat_5km \<and> pr_sport r = a_sport a) rs
         = Some r"
  shows "filter (\<lambda>d. dr_recordType d = Some Time) (detectRecords a rs)
       = (if a_totalTimeSeconds a < pr_value r
          then [\<lparr>dr_isRecord = True, dr_recordType = Some Time, dr_category = Some Cat_5km,
                 dr_value = Some (a_totalTimeSeconds a), dr_previousValue = Some (pr_value r),
                 dr_improvement = Some (pr_value r - a_totalTimeSeconds a)\<rparr>]
          else [])"
  unfolding time_results_of_detectRecords time_pass_5km [OF assms(1,2)]
  using assms by (simp add: timeRecordForBand_def Let_def)

lemma time_5km_lookup_first:
  "List.find (\<lambda>r. pr_type r = Time \<and> pr_category r = Cat_5km
                   \<and> pr_sport r = a_sport (runWithoutTrackpoints x t))
     (storedRecord Time Cat_5km v # rs) = Some (storedRecord Time Cat_5km v)"
  by (simp add: storedRecord_def runWithoutTrackpoints_def)

text \<open>
  Claim C5: with the time record 1200 for (time, 5km, sport), a run in the 5 km band in 1100 s
  is flagged with the improvement 100 and a run in 1300 s is not. So it is when the record of
  1200 s is the only one stored for the band. The store keeps the beaten records too, one per
  activity, and the lookup takes the first of them: with the beaten record of 1400 s stored
  before the record of 1200 s, a run of 5000 m in 1300 s is flagged as a time record, with the
  previous value 1400 and the improvement 100, although it is slower than the record of
  1200 s.
\<close>

theorem time_record_against_beaten_record:
  "filter (\<lambda>d. dr_recordType d = Some Time)
     (detectRecords (runWithoutTrackpoints 5000 1100) [storedRecord Time Cat_5km 1200])
   = [\<lparr>dr_isRecord = True, dr_recordType = Some Time, dr_category = Some Cat_5km,
       dr_value = Some 1100, dr_previousValue = Some 1200, dr_improvement = Some 100\<rparr>]
   \<and> filter (\<lambda>d. dr_recordType d = Some Time)
       (detectRecords (runWithoutTrackpoints 5000 1300) [storedRecord Time Cat_5km 1200]) = []
   \<and> filter (\<lambda>d. dr_recordType d = Some Time)
       (detectRecords (runWithoutTrackpoints 5000 1300)
          [storedRecord Time Cat_5km 1400, laterRecord Time Cat_5km 1200 1400 200])
     = [\<lparr>dr_isRecord = True, dr_recordType = Some Time, dr_category = Some Cat_5km,
         dr_value = Some 1300, dr_previousValue = Some 1400, dr_improvement = Some 100\<rparr>]"
proof -
  have b: "4500 \<le> a_distanceMeters (runWithoutTrackpoints 5000 t)"
          "a_distanceMeters (runWithoutTrackpoints 5000 t) \<le> 5500" for t
    by (simp_all add: runWithoutTrackpoints_def)
  have 1: "filter (\<lambda>d. dr_recordType d = Some Time)
     (detectRecords (runWithoutTrackpoints 5000 1100) [storedRecord Time Cat_5km 1200])
   = [\<lparr>dr_isRecord = True, dr_recordType = Some Time, dr_category = Some Cat_5km,
       dr_value = Some 1100, dr_previousValue = Some 1200, dr_improvement = Some 100\<rparr>]"
    unfolding time_pass_against_found_record [OF b time_5km_lookup_first]
    by (simp add: storedRecord_def runWithoutTrackpoints_def)
  have 2: "filter (\<lambda>d. dr_recordType d = Some Time)
       (detectRecords (runWithoutTrackpoints 5000 1300) [storedRecord Time Cat_5km 1200]) = []"
    unfolding time_pass_against_found_record [OF b time_5km_lookup_first]
    by (simp add: storedRecord_def runWithoutTrackpoints_def)
  have 3: "filter (\<lambda>d. dr_recordType d = Some Time)
       (detectRecords (runWithoutTrackpoints 5000 1300)
          [storedRecord Time Cat_5km 1400, laterRecord Time Cat_5km 1200 1400 200])
     = [\<lparr>dr_isRecord = True, dr_recordType = Some Time, dr_category = Some Cat_5km,
         dr_value = Some 1300, dr_previousValue = Some 1400, dr_improvement = Some 100\<rparr>]"
    unfolding time_pass_against_found_record [OF b time_5km_lookup_first]
    by (simp add: storedRecord_def runWithoutTrackpoints_def)
  from 1 2 3 show ?thesis by blast
qed

text \<open>
  The two stored records arise from the detector itself: against the record of 1400 s, a run
  of 5000 m in 1200 s is detected with the previous value 1400 and the improvement 200, and
  the record created from this detection is saved beside the one it beats.
\<close>

lemma beaten_record_arises:
  "filter (\<lambda>d. dr_recordType d = Some Time)
     (detectRecords (runWithoutTrackpoints 5000 1200) [storedRecord Time Cat_5km 1400])
   = [\<lparr>dr_isRecord = True, dr_recordType = Some Time, dr_category = Some Cat_5km,
       dr_value = Some 1200, dr_previousValue = Some 1400, dr_improvement = Some 200\<rparr>]"
proof -
  have b: "4500 \<le> a_distanceMeters (runWithoutTrackpoints 5000 t)"
          "a_distanceMeters (runWithoutTrackpoints 5000 t) \<le> 5500" for t
    by (simp_all add: runWithoutTrackpoints_def)
  show ?thesis
    unfolding time_pass_against_found_record [OF b time_5km_lookup_first]
    by (simp add: storedRecord_def runWithoutTrackpoints_def)
qed

text \<open>
  The other way round, with a record of 1000 s stored before the record of 1200 s, a run in
  1100 s is compared with the record of 1000 s and not flagged.
\<close>

lemma time_record_against_better_record:
  "filter (\<lambda>d. dr_recordType d = Some Time)
     (detectRecords (runWithoutTrackpoints 5000 1100)
        [storedRecord Time Cat_5km 1000, laterRecord Time Cat_5km 1200 1400 200]) = []"
proof -
  have b: "4500 \<le> a_distanceMeters (runWithoutTrackpoints 5000 t)"
          "a_distanceMeters (runWithoutTrackpoints 5000 t) \<le> 5500" for t
    by (simp_all add: runWithoutTrackpoints_def)
  show ?thesis
    unfolding time_pass_against_found_record [OF b time_5km_lookup_first]
    by (simp add: storedRecord_def runWithoutTrackpoints_def)
qed

lemma stats_of_run:
  "calculateStatistics (runWithoutTrackpoints x t) =
     \<lparr>st_totalDistance = x, st_totalTime = t, st_averageSpeed = x / t, st_maxSpeed = 0,
      st_averageHeartRate = None, st_maxHeartRate = None, st_minHeartRate = None,
      st_averageCadence = None, st_maxCadence = None,
      st_totalCalories = Some 650,
      st_elevationGain = None, st_elevationLoss = None,
      st_minAltitude = None, st_maxAltitude = None,
      st_averagePace = None, st_maxPace = None\<rparr>"
  by (simp add: calculateStatistics_def runWithoutTrackpoints_def emptyLap_def)

lemma first_run_detections:
  "detectRecords (runWithoutTrackpoints 5000 1500) [] =
     [\<lparr>dr_isRecord = True, dr_recordType = Some Distance, dr_category = Some Longest,
       dr_value = Some 5000, dr_previousValue = None, dr_improvement = Some 5000\<rparr>,
      \<lparr>dr_isRecord = True, dr_recordType = Some Speed, dr_category = Some Fastest,
       dr_value = Some 0, dr_previousValue = None, dr_improvement = Some 0\<rparr>,
      \<lparr>dr_isRecord = True, dr_recordType = Some Time, dr_category = Some Cat_5km,
       dr_value = Some 1500, dr_previousValue = None, dr_improvement = Some 0\<rparr>,
      \<lparr>dr_isRecord = True, dr_recordType = Some Calories, dr_category = Some Longest,
       dr_value = Some 650, dr_previousValue = None, dr_improvement = Some 650\<rparr>]"
proof -
  have 1: "detectDistanceRecords (runWithoutTrackpoints 5000 1500) [] =
     [\<lparr>dr_isRecord = True, dr_recordType = Some Distance, dr_category = Some Longest,
       dr_value = Some 5000, dr_previousValue = None, dr_improvement = Some 5000\<rparr>]"
    by (simp add: detectDistanceRecords_def runWithoutTrackpoints_def)
  have 2: "detectSpeedRecords (runWithoutTrackpoints 5000 1500) [] =
     [\<lparr>dr_isRecord = True, dr_recordType = Some Speed, dr_category = Some Fastest,
       dr_value = Some 0, dr_previousValue = None, dr_improvement = Some 0\<rparr>]"
    by (simp add: detectSpeedRecords_def stats_of_run) (simp add: runWithoutTrackpoints_def)
  have 3: "detectTimeRecords (runWithoutTrackpoints 5000 1500) [] =
     [\<lparr>dr_isRecord = True, dr_recordType = Some Time, dr_category = Some Cat_5km,
       dr_value = Some 1500, dr_previousValue = None, dr_improvement = Some 0\<rparr>]"
    by (simp add: detectTimeRecords_def DISTANCE_CATEGORIES_def timeRecordForBand_def
        runWithoutTrackpoints_def)
  have 4: "detectElevationRecords (runWithoutTrackpoints 5000 1500) [] = []"
    by (simp add: detectElevationRecords_def stats_of_run)
  have 5: "detectCalorieRecords (runWithoutTrackpoints 5000 1500) [] =
     [\<lparr>dr_isRecord = True, dr_recordType = Some Calories, dr_category = Some Longest,
       dr_value = Some 650, dr_previousValue = None, dr_improvement = Some 650\<rparr>]"
    by (simp add: detectCalorieRecords_def runWithoutTrackpoints_def)
  show ?thesis by (simp add: detectRecords_passes 1 2 3 4 5)
qed

text \<open>
  Claim C1, as stated: in every detection pass a detection without prior record has the new
  value as its improvement, for a time detection the total time of the activity. It fails in
  the time pass: for a run of 5000 m in 1500 s and no stored record, the four detections
  (distance, fastest speed, time on 5 km, calories) have no previous value, the values 5000,
  0, 1500 and 650, and the improvements 5000, 0, 0 and 650.
\<close>

theorem first_time_record_improvement_counterexample:
  "map dr_recordType (detectRecords (runWithoutTrackpoints 5000 1500) [])
     = [Some Distance, Some Speed, Some Time, Some Calories]
   \<and> map dr_previousValue (detectRecords (runWithoutTrackpoints 5000 1500) [])
     = [None, None, None, None]
   \<and> map dr_value (detectRecords (runWithoutTrackpoints 5000 1500) [])
     = [Some 5000, Some 0, Some 1500, Some 650]
   \<and> map dr_improvement (detectRecords (runWithoutTrackpoints 5000 1500) [])
     = [Some 5000, Some 0, Some 0, Some 650]
   \<and> a_totalTimeSeconds (runWithoutTrackpoints 5000 1500) = 1500"
  by (simp add: first_run_detections) (simp add: runWithoutTrackpoints_def)

lemma distance_pass_first:
  assumes "d \<in> set (detectDistanceRecords a rs)"
    and "\<forall>r \<in> set rs. \<not> (pr_type r = Distance \<and> pr_category r = Longest \<and> pr_sport r = a_sport a)"
  shows "dr_previousValue d = None \<and> dr_improvement d = dr_value d"
proof -
  have "List.find (\<lambda>r. pr_type r = Distance \<and> pr_category r = Longest \<and> pr_sport r = a_sport a) rs = None"
    using assms(2) by (simp add: find_None_iff)
  then show ?thesis using assms(1) by (auto simp: detectDistanceRecords_def Let_def)
qed

lemma speed_pass_first:
  assumes "d \<in> set (detectSpeedRecords a rs)"
    and "\<forall>r \<in> set rs. \<not> (Some (pr_type r) = dr_recordType d \<and> Some (pr_category r) = dr_category d
            \<and> pr_sport r = a_sport a)"
  shows "dr_previousValue d = None \<and> dr_improvement d = dr_value d"
proof -
  let ?P = "\<lambda>c r. pr_type r = Speed \<and> pr_category r = c \<and> pr_sport r = a_sport a"
  from speed_pass_shape [OF assms(1)]
  consider "dr_recordType d = Some Speed" "dr_category d = Some Fastest"
    | "dr_recordType d = Some Speed" "dr_category d = Some Cat_10km" by blast
  then show ?thesis
  proof cases
    case 1
    with assms(2) have "List.find (?P Fastest) rs = None" by (auto simp: find_None_iff)
    then show ?thesis using assms(1) 1
      by (auto simp: detectSpeedRecords_def Let_def split: option.splits if_splits)
  next
    case 2
    with assms(2) have "List.find (?P Cat_10km) rs = None" by (auto simp: find_None_iff)
    then show ?thesis using assms(1) 2
      by (auto simp: detectSpeedRecords_def Let_def split: option.splits if_splits)
  qed
qed

lemma band_first:
  assumes "d \<in> set (timeRecordForBand a rs e)"
    and "\<forall>r \<in> set rs. \<not> (pr_type r = Time \<and> Some (pr_category r) = dr_category d
            \<and> pr_sport r = a_sport a)"
  shows "dr_previousValue d = None \<and> dr_improvement d = Some 0"
proof -
  have "dr_category d = Some (fst e)" using band_shape [OF assms(1)] by simp
  with assms(2)
  have "List.find (\<lambda>r. pr_type r = Time \<and> pr_category r = fst e \<and> pr_sport r = a_sport a) rs = None"
    by (auto simp: find_None_iff)
  then show ?thesis using assms(1)
    by (auto simp: timeRecordForBand_def Let_def split: if_splits)
qed

lemma time_pass_first:
  assumes "d \<in> set (detectTimeRecords a rs)"
    and "\<forall>r \<in> set rs. \<not> (pr_type r = Time \<and> Some (pr_category r) = dr_category d
            \<and> pr_sport r = a_sport a)"
  shows "dr_previousValue d = None \<and> dr_improvement d = Some 0"
proof -
  from assms(1) obtain e where "d \<in> set (timeRecordForBand a rs e)"
    by (auto simp: detectTimeRecords_def)
  then show ?thesis using assms(2) by (rule band_first)
qed

lemma elevation_pass_first:
  assumes "d \<in> set (detectElevationRecords a rs)"
    and "\<forall>r \<in> set rs. \<not> (pr_type r = Elevation \<and> pr_category r = Highest \<and> pr_sport r = a_sport a)"
  shows "dr_previousValue d = None \<and> dr_improvement d = dr_value d"
proof -
  have "List.find (\<lambda>r. pr_type r = Elevation \<and> pr_category r = Highest \<and> pr_sport r = a_sport a) rs = None"
    using assms(2) by (simp add: find_None_iff)
  then show ?thesis using assms(1)
    by (auto simp: detectElevationRecords_def Let_def split: option.splits if_splits)
qed

lemma calorie_pass_first:
  assumes "d \<in> set (detectCalorieRecords a rs)"
    and "\<forall>r \<in> set rs. \<not> (pr_type r = Calories \<and> pr_sport r = a_sport a)"
  shows "dr_previousValue d = None \<and> dr_improvement d = dr_value d"
proof -
  have "List.find (\<lambda>r. pr_type r = Calories \<and> pr_sport r = a_sport a) rs = None"
    using assms(2) by (simp add: find_None_iff)
  then show ?thesis using assms(1)
    by (auto simp: detectCalorieRecords_def Let_def split: option.splits if_splits)
qed

text \<open>
  Claim C1, amended: a detection of the distance, speed or elevation pass for whose (type,
  category, sport) triple no record is stored, and a detection of the calorie pass when no
  calorie record of the sport is stored in any category, has no previous value and the new
  value itself as its improvement; a detection of the time pass for whose (time, band, sport)
  triple no record is stored has no previous value and the improvement 0.
\<close>

theorem improvement_without_prior_record:
  assumes "d \<in> set (detectRecords a rs)"
  shows "(dr_recordType d \<noteq> Some Calories
          \<and> (\<forall>r \<in> set rs. \<not> (Some (pr_type r) = dr_recordType d
                \<and> Some (pr_category r) = dr_category d \<and> pr_sport r = a_sport a))
          \<longrightarrow> dr_previousValue d = None
            \<and> dr_improvement d = (if dr_recordType d = Some Time then Some 0 else dr_value d))
       \<and> (dr_recordType d = Some Calories
          \<and> (\<forall>r \<in> set rs. \<not> (pr_type r = Calories \<and> pr_sport r = a_sport a))
          \<longrightarrow> dr_previousValue d = None \<and> dr_improvement d = dr_value d)"
proof -
  from assms consider
      (dist) "d \<in> set (detectDistanceRecords a rs)"
    | (speed) "d \<in> set (detectSpeedRecords a rs)"
    | (time) "d \<in> set (detectTimeRecords a rs)"
    | (elev) "d \<in> set (detectElevationRecords a rs)"
    | (cal) "d \<in> set (detectCalorieRecords a rs)"
    by (auto simp: detectRecords_passes)
  then show ?thesis
  proof cases
    case dist
    note s = distance_pass_shape [OF dist]
    show ?thesis using s distance_pass_first [OF dist] by auto
  next
    case speed
    note s = speed_pass_shape [OF speed]
    show ?thesis using s speed_pass_first [OF speed] by auto
  next
    case time
    note s = time_pass_shape [OF time]
    show ?thesis using s time_pass_first [OF time] by auto
  next
    case elev
    note s = elevation_pass_shape [OF elev]
    show ?thesis using s elevation_pass_first [OF elev] by auto
  next
    case cal
    note s = calorie_pass_shape [OF cal]
    show ?thesis using s calorie_pass_first [OF cal] by auto
  qed
qed

lemma secondExample_detections:
  "detectRecords (runWithoutTrackpoints 5000 1500) [storedRecord Distance Longest 9000] =
     [\<lparr>dr_isRecord = True, dr_recordType = Some Speed, dr_category = Some Fastest,
       dr_value = Some 0, dr_previousValue = None, dr_improvement = Some 0\<rparr>,
      \<lparr>dr_isRecord = True, dr_recordType = Some Time, dr_category = Some Cat_5km,
       dr_value = Some 1500, dr_previousValue = None, dr_improvement = Some 0\<rparr>,
      \<lparr>dr_isRecord = True, dr_recordType = Some Calories, dr_category = Some Longest,
       dr_value = Some 650, dr_previousValue = None, dr_improvement = Some 650\<rparr>]"
proof -
  let ?rs = "[storedRecord Distance Longest 9000]"
  have 1: "detectDistanceRecords (runWithoutTrackpoints 5000 1500) ?rs = []"
    by (simp add: detectDistanceRecords_def runWithoutTrackpoints_def storedRecord_def)
  have 2: "detectSpeedRecords (runWithoutTrackpoints 5000 1500) ?rs =
     [\<lparr>dr_isRecord = True, dr_recordType = Some Speed, dr_category = Some Fastest,
       dr_value = Some 0, dr_previousValue = None, dr_improvement = Some 0\<rparr>]"
    by (simp add: detectSpeedRecords_def stats_of_run storedRecord_def)
       (simp add: runWithoutTrackpoints_def)
  have 3: "detectTimeRecords (runWithoutTrackpoints 5000 1500) ?rs =
     [\<lparr>dr_isRecord = True, dr_recordType = Some Time, dr_category = Some Cat_5km,
       dr_value = Some 1500, dr_previousValue = None, dr_improvement = Some 0\<rparr>]"
    by (simp add: detectTimeRecords_def DISTANCE_CATEGORIES_def timeRecordForBand_def
        runWithoutTrackpoints_def storedRecord_def)
  have 4: "detectElevationRecords (runWithoutTrackpoints 5000 1500) ?rs = []"
    by (simp add: detectElevationRecords_def stats_of_run)
  have 5: "detectCalorieRecords (runWithoutTrackpoints 5000 1500) ?rs =
     [\<lparr>dr_isRecord = True, dr_recordType = Some Calories, dr_category = Some Longest,
       dr_value = Some 650, dr_previousValue = None, dr_improvement = Some 650\<rparr>]"
    by (simp add: detectCalorieRecords_def runWithoutTrackpoints_def storedRecord_def)
  show ?thesis by (simp add: detectRecords_passes 1 2 3 4 5)
qed

theorem improvement_without_prior_record_witness:
  "\<lparr>dr_isRecord = True, dr_recordType = Some Time, dr_category = Some Cat_5km,
     dr_value = Some 1500, dr_previousValue = None, dr_improvement = Some 0\<rparr>
     \<in> set (detectRecords (runWithoutTrackpoints 5000 1500) [storedRecord Distance Longest 9000])
   \<and> \<lparr>dr_isRecord = True, dr_recordType = Some Calories, dr_category = Some Longest,
     dr_value = Some 650, dr_previousValue = None, dr_improvement = Some 650\<rparr>
     \<in> set (detectRecords (runWithoutTrackpoints 5000 1500) [storedRecord Distance Longest 9000])
   \<and> map pr_type [storedRecord Distance Longest 9000] = [Distance]"
proof -
  let ?a = "runWithoutTrackpoints 5000 1500"
  let ?rs = "[storedRecord Distance Longest 9000]"
  let ?t = "\<lparr>dr_isRecord = True, dr_recordType = Some Time, dr_category = Some Cat_5km,
     dr_value = Some 1500, dr_previousValue = None, dr_improvement = Some 0\<rparr>"
  let ?c = "\<lparr>dr_isRecord = True, dr_recordType = Some Calories, dr_category = Some Longest,
     dr_value = Some 650, dr_previousValue = None, dr_improvement = Some 650\<rparr>"
  have mt: "?t \<in> set (detectRecords ?a ?rs)" and mc: "?c \<in> set (detectRecords ?a ?rs)"
    by (simp_all add: secondExample_detections)
  have ty: "map pr_type ?rs = [Distance]" by (simp add: storedRecord_def)
  then have ht: "\<forall>r \<in> set ?rs. \<not> (Some (pr_type r) = dr_recordType ?t
        \<and> Some (pr_category r) = dr_category ?t \<and> pr_sport r = a_sport ?a)"
    and hc: "\<forall>r \<in> set ?rs. \<not> (pr_type r = Calories \<and> pr_sport r = a_sport ?a)"
    by simp_all
  have "dr_previousValue ?t = None
      \<and> dr_improvement ?t = (if dr_recordType ?t = Some Time then Some 0 else dr_value ?t)"
    using improvement_without_prior_record [OF mt] ht by simp
  moreover have "dr_previousValue ?c = None \<and> dr_improvement ?c = dr_value ?c"
    using improvement_without_prior_record [OF mc] hc by simp
  ultimately show ?thesis using mt mc ty by blast
qed

text \<open>A first time on a band is detected, with the improvement 0.\<close>

lemma first_time_record_emitted:
  assumes "(c, b) \<in> set DISTANCE_CATEGORIES"
    and "band_min b \<le> a_distanceMeters a" and "a_distanceMeters a \<le> band_max b"
    and "\<forall>r \<in> set rs. \<not> (pr_type r = Time \<and> pr_category r = c \<and> pr_sport r = a_sport a)"
  shows "\<lparr>dr_isRecord = True, dr_recordType = Some Time, dr_category = Some c,
           dr_value = Some (a_totalTimeSeconds a), dr_previousValue = None,
           dr_improvement = Some 0\<rparr> \<in> set (detectRecords a rs)"
proof -
  have "List.find (\<lambda>r. pr_type r = Time \<and> pr_category r = c \<and> pr_sport r = a_sport a) rs = None"
    using assms(4) by (simp add: find_None_iff)
  then have "timeRecordForBand a rs (c, b) =
      [\<lparr>dr_isRecord = True, dr_recordType = Some Time, dr_category = Some c,
        dr_value = Some (a_totalTimeSeconds a), dr_previousValue = None,
        dr_improvement = Some 0\<rparr>]"
    using assms(2,3) by (simp add: timeRecordForBand_def)
  then have "\<lparr>dr_isRecord = True, dr_recordType = Some Time, dr_category = Some c,
        dr_value = Some (a_totalTimeSeconds a), dr_previousValue = None,
        dr_improvement = Some 0\<rparr> \<in> set (detectTimeRecords a rs)"
    using assms(1) unfolding detectTimeRecords_def by force
  then show ?thesis by (simp add: detectRecords_passes)
qed

lemma find_append_cases:
  "List.find P (xs @ ys) = (case List.find P xs of None \<Rightarrow> List.find P ys | Some x \<Rightarrow> Some x)"
  by (induction xs) auto

lemma find_in_front:
  assumes "\<And>r. r \<in> set new \<Longrightarrow> P r \<Longrightarrow> Q r"
  shows "(\<exists>r. List.find P (new @ rs) = Some r \<and> Q r)
       \<or> ((\<forall>r \<in> set new. \<not> P r) \<and> List.find P (new @ rs) = List.find P rs)"
proof (cases "List.find P new")
  case None
  then have "\<forall>r \<in> set new. \<not> P r" by (auto simp: find_None_iff)
  then show ?thesis using None by (simp add: find_append_cases)
next
  case (Some r)
  then have "r \<in> set new" and "P r" by (auto simp: find_Some_iff)
  then have "Q r" by (rule assms)
  then show ?thesis using Some by (simp add: find_append_cases)
qed

lemma elevation_pass_value:
  assumes "d \<in> set (detectElevationRecords a rs)"
  shows "\<exists>g. dr_value d = Some g \<and> st_elevationGain (calculateStatistics a) = Some g"
proof (cases "st_elevationGain (calculateStatistics a)")
  case None
  then show ?thesis using assms by (simp add: detectElevationRecords_def)
next
  case (Some g)
  then show ?thesis using assms
    by (auto simp: detectElevationRecords_def Let_def split: option.splits if_splits)
qed

lemma calorie_pass_value:
  assumes "d \<in> set (detectCalorieRecords a rs)"
  shows "\<exists>c. dr_value d = Some c \<and> a_calories a = Some c"
proof (cases "a_calories a")
  case None
  then show ?thesis using assms by (simp add: detectCalorieRecords_def)
next
  case (Some c)
  then show ?thesis using assms
    by (auto simp: detectCalorieRecords_def Let_def split: option.splits if_splits)
qed

lemma created_fields:
  assumes "createRecordFromDetection now d a = Some r"
  shows "dr_recordType d = Some (pr_type r) \<and> dr_category d = Some (pr_category r)
       \<and> dr_value d = Some (pr_value r) \<and> pr_sport r = a_sport a"
  using assms by (auto simp: createRecordFromDetection_def split: option.splits)

lemma created_of_fields:
  assumes "dr_recordType d = Some t" and "dr_category d = Some c" and "dr_value d = Some v"
  shows "\<exists>r. createRecordFromDetection now d a = Some r \<and> pr_type r = t \<and> pr_category r = c
           \<and> pr_value r = v \<and> pr_sport r = a_sport a"
  using assms by (simp add: createRecordFromDetection_def)

lemma detection_fields:
  assumes "d \<in> set (detectRecords a rs)"
  shows "\<exists>t c v. dr_recordType d = Some t \<and> dr_category d = Some c \<and> dr_value d = Some v"
proof -
  from assms consider
      (dist) "d \<in> set (detectDistanceRecords a rs)"
    | (speed) "d \<in> set (detectSpeedRecords a rs)"
    | (time) "d \<in> set (detectTimeRecords a rs)"
    | (elev) "d \<in> set (detectElevationRecords a rs)"
    | (cal) "d \<in> set (detectCalorieRecords a rs)"
    by (auto simp: detectRecords_passes)
  then show ?thesis
  proof cases
    case dist then show ?thesis using distance_pass_shape by blast
  next
    case speed then show ?thesis using speed_pass_shape by blast
  next
    case time then show ?thesis using time_pass_shape by blast
  next
    case elev then show ?thesis using elevation_pass_shape elevation_pass_value by blast
  next
    case cal then show ?thesis using calorie_pass_shape calorie_pass_value by blast
  qed
qed

lemma detection_value:
  assumes "d \<in> set (detectRecords a rs)"
  shows "(dr_recordType d = Some Distance \<longrightarrow> dr_value d = Some (a_distanceMeters a))
       \<and> (dr_recordType d = Some Speed \<and> dr_category d = Some Fastest
            \<longrightarrow> dr_value d = Some (st_maxSpeed (calculateStatistics a)))
       \<and> (dr_recordType d = Some Speed \<and> dr_category d = Some Cat_10km
            \<longrightarrow> dr_value d = Some (st_averageSpeed (calculateStatistics a)))
       \<and> (dr_recordType d = Some Time \<longrightarrow> dr_value d = Some (a_totalTimeSeconds a))
       \<and> (dr_recordType d = Some Elevation \<longrightarrow> dr_value d = st_elevationGain (calculateStatistics a))
       \<and> (dr_recordType d = Some Calories \<longrightarrow> dr_value d = a_calories a)"
proof -
  from assms consider
      (dist) "d \<in> set (detectDistanceRecords a rs)"
    | (speed) "d \<in> set (detectSpeedRecords a rs)"
    | (time) "d \<in> set (detectTimeRecords a rs)"
    | (elev) "d \<in> set (detectElevationRecords a rs)"
    | (cal) "d \<in> set (detectCalorieRecords a rs)"
    by (auto simp: detectRecords_passes)
  then show ?thesis
  proof cases
    case dist then show ?thesis using distance_pass_shape [OF dist] by simp
  next
    case speed then show ?thesis using speed_pass_shape [OF speed] by auto
  next
    case time then show ?thesis using time_pass_shape [OF time] by simp
  next
    case elev then show ?thesis using elevation_pass_shape [OF elev] by simp
  next
    case cal then show ?thesis using calorie_pass_shape [OF cal] by simp
  qed
qed

lemma fresh_from_detection:
  assumes "r \<in> set (freshRecords now a rs)"
  shows "\<exists>d \<in> set (detectRecords a rs). createRecordFromDetection now d a = Some r"
  using assms by (auto simp: freshRecords_def List.map_filter_def)

lemma detection_has_fresh:
  assumes "d \<in> set (detectRecords a rs)"
  shows "\<exists>r \<in> set (freshRecords now a rs). dr_recordType d = Some (pr_type r)
           \<and> dr_category d = Some (pr_category r) \<and> pr_sport r = a_sport a"
proof -
  from detection_fields [OF assms] obtain t c v where
    f: "dr_recordType d = Some t" "dr_category d = Some c" "dr_value d = Some v" by blast
  from created_of_fields [OF f, of now a] obtain r where
    r: "createRecordFromDetection now d a = Some r" "pr_type r = t" "pr_category r = c"
       "pr_sport r = a_sport a" by blast
  from r(1) assms have "r \<in> set (freshRecords now a rs)"
    by (force simp: freshRecords_def List.map_filter_def)
  then show ?thesis using f r by auto
qed

lemma all_detections_materialised:
  "length (freshRecords now a rs) = length (detectRecords a rs)"
proof -
  have "filter (\<lambda>d. createRecordFromDetection now d a \<noteq> None) (detectRecords a rs)
        = detectRecords a rs"
  proof (rule filter_all)
    fix d assume "d \<in> set (detectRecords a rs)"
    from detection_fields [OF this] obtain t c v where
      "dr_recordType d = Some t" "dr_category d = Some c" "dr_value d = Some v" by blast
    from created_of_fields [OF this, of now a]
    show "createRecordFromDetection now d a \<noteq> None" by auto
  qed
  then show ?thesis by (simp add: freshRecords_def List.map_filter_def)
qed

lemma fresh_value:
  assumes "r \<in> set (freshRecords now a rs)"
  shows "pr_sport r = a_sport a
       \<and> (pr_type r = Distance \<longrightarrow> pr_value r = a_distanceMeters a)
       \<and> (pr_type r = Speed \<and> pr_category r = Fastest
            \<longrightarrow> pr_value r = st_maxSpeed (calculateStatistics a))
       \<and> (pr_type r = Speed \<and> pr_category r = Cat_10km
            \<longrightarrow> pr_value r = st_averageSpeed (calculateStatistics a))
       \<and> (pr_type r = Time \<longrightarrow> pr_value r = a_totalTimeSeconds a)
       \<and> (pr_type r = Elevation \<longrightarrow> st_elevationGain (calculateStatistics a) = Some (pr_value r))
       \<and> (pr_type r = Calories \<longrightarrow> a_calories a = Some (pr_value r))"
proof -
  from fresh_from_detection [OF assms] obtain d where
    d: "d \<in> set (detectRecords a rs)" "createRecordFromDetection now d a = Some r" by blast
  note f = created_fields [OF d(2)]
  note v = detection_value [OF d(1)]
  show ?thesis using f v by auto
qed

lemma lookup_rerun:
  assumes val: "\<And>r. r \<in> set (freshRecords now a rs) \<Longrightarrow> P r \<Longrightarrow> Q r"
    and prod: "\<And>d. d \<in> set ds \<Longrightarrow> d \<in> set (detectRecords a rs)
                 \<and> (\<forall>r. dr_recordType d = Some (pr_type r) \<and> dr_category d = Some (pr_category r)
                          \<and> pr_sport r = a_sport a \<longrightarrow> P r)"
  shows "(\<exists>r. List.find P (freshRecords now a rs @ rs) = Some r \<and> Q r)
       \<or> (List.find P (freshRecords now a rs @ rs) = List.find P rs \<and> ds = [])"
proof -
  have "(\<exists>r. List.find P (freshRecords now a rs @ rs) = Some r \<and> Q r)
      \<or> ((\<forall>r \<in> set (freshRecords now a rs). \<not> P r)
          \<and> List.find P (freshRecords now a rs @ rs) = List.find P rs)"
    using val by (rule find_in_front)
  moreover have "ds = []" if n: "\<forall>r \<in> set (freshRecords now a rs). \<not> P r"
  proof (rule ccontr)
    assume "ds \<noteq> []"
    then obtain d where d: "d \<in> set ds" by (cases ds) auto
    from prod [OF d] have m: "d \<in> set (detectRecords a rs)"
      and p: "\<And>r. dr_recordType d = Some (pr_type r) \<Longrightarrow> dr_category d = Some (pr_category r)
                \<Longrightarrow> pr_sport r = a_sport a \<Longrightarrow> P r" by blast+
    from detection_has_fresh [OF m, of now] obtain r where
      "r \<in> set (freshRecords now a rs)" "dr_recordType d = Some (pr_type r)"
      "dr_category d = Some (pr_category r)" "pr_sport r = a_sport a" by blast
    then show False using p n by blast
  qed
  ultimately show ?thesis by blast
qed

lemma distance_stable:
  assumes "(\<exists>r. List.find (\<lambda>r. pr_type r = Distance \<and> pr_category r = Longest
                     \<and> pr_sport r = a_sport a) rs' = Some r \<and> pr_value r = a_distanceMeters a)
         \<or> (List.find (\<lambda>r. pr_type r = Distance \<and> pr_category r = Longest
                     \<and> pr_sport r = a_sport a) rs'
             = List.find (\<lambda>r. pr_type r = Distance \<and> pr_category r = Longest
                     \<and> pr_sport r = a_sport a) rs
            \<and> detectDistanceRecords a rs = [])"
  shows "detectDistanceRecords a rs' = []"
  using assms by (auto simp: detectDistanceRecords_def Let_def split: option.splits if_splits)

lemma distance_rerun: "detectDistanceRecords a (freshRecords now a rs @ rs) = []"
proof (rule distance_stable, rule lookup_rerun)
  fix r assume "r \<in> set (freshRecords now a rs)"
    and "pr_type r = Distance \<and> pr_category r = Longest \<and> pr_sport r = a_sport a"
  then show "pr_value r = a_distanceMeters a" using fresh_value by blast
next
  fix d assume d: "d \<in> set (detectDistanceRecords a rs)"
  then have "d \<in> set (detectRecords a rs)" by (simp add: detectRecords_passes)
  then show "d \<in> set (detectRecords a rs)
     \<and> (\<forall>r. dr_recordType d = Some (pr_type r) \<and> dr_category d = Some (pr_category r)
            \<and> pr_sport r = a_sport a
            \<longrightarrow> pr_type r = Distance \<and> pr_category r = Longest \<and> pr_sport r = a_sport a)"
    using distance_pass_shape [OF d] by auto
qed

lemma speed_stable:
  assumes "(\<exists>r. List.find (\<lambda>r. pr_type r = Speed \<and> pr_category r = Fastest
                     \<and> pr_sport r = a_sport a) rs' = Some r
                \<and> pr_value r = st_maxSpeed (calculateStatistics a))
         \<or> (List.find (\<lambda>r. pr_type r = Speed \<and> pr_category r = Fastest
                     \<and> pr_sport r = a_sport a) rs'
             = List.find (\<lambda>r. pr_type r = Speed \<and> pr_category r = Fastest
                     \<and> pr_sport r = a_sport a) rs
            \<and> filter (\<lambda>d. dr_category d = Some Fastest) (detectSpeedRecords a rs) = [])"
    and "(\<exists>r. List.find (\<lambda>r. pr_type r = Speed \<and> pr_category r = Cat_10km
                     \<and> pr_sport r = a_sport a) rs' = Some r
                \<and> pr_value r = st_averageSpeed (calculateStatistics a))
         \<or> (List.find (\<lambda>r. pr_type r = Speed \<and> pr_category r = Cat_10km
                     \<and> pr_sport r = a_sport a) rs'
             = List.find (\<lambda>r. pr_type r = Speed \<and> pr_category r = Cat_10km
                     \<and> pr_sport r = a_sport a) rs
            \<and> filter (\<lambda>d. dr_category d = Some Cat_10km) (detectSpeedRecords a rs) = [])"
  shows "detectSpeedRecords a rs' = []"
proof -
  let ?F = "\<lambda>r. pr_type r = Speed \<and> pr_category r = Fastest \<and> pr_sport r = a_sport a"
  let ?T = "\<lambda>r. pr_type r = Speed \<and> pr_category r = Cat_10km \<and> pr_sport r = a_sport a"
  obtain f where f: "List.find ?F rs = f" by simp
  obtain t where t: "List.find ?T rs = t" by simp
  obtain f' where f': "List.find ?F rs' = f'" by simp
  obtain t' where t': "List.find ?T rs' = t'" by simp
  show ?thesis
    using assms unfolding detectSpeedRecords_def Let_def f t f' t'
    by (auto split: option.splits if_splits)
qed

lemma speed_rerun: "detectSpeedRecords a (freshRecords now a rs @ rs) = []"
proof (rule speed_stable; rule lookup_rerun)
  fix r assume "r \<in> set (freshRecords now a rs)"
    and "pr_type r = Speed \<and> pr_category r = Fastest \<and> pr_sport r = a_sport a"
  then show "pr_value r = st_maxSpeed (calculateStatistics a)" using fresh_value by blast
next
  fix r assume "r \<in> set (freshRecords now a rs)"
    and "pr_type r = Speed \<and> pr_category r = Cat_10km \<and> pr_sport r = a_sport a"
  then show "pr_value r = st_averageSpeed (calculateStatistics a)" using fresh_value by blast
next
  fix d assume "d \<in> set (filter (\<lambda>d. dr_category d = Some Fastest) (detectSpeedRecords a rs))"
  then have d: "d \<in> set (detectSpeedRecords a rs)" and c: "dr_category d = Some Fastest" by auto
  from d have "d \<in> set (detectRecords a rs)" by (simp add: detectRecords_passes)
  then show "d \<in> set (detectRecords a rs)
     \<and> (\<forall>r. dr_recordType d = Some (pr_type r) \<and> dr_category d = Some (pr_category r)
            \<and> pr_sport r = a_sport a
            \<longrightarrow> pr_type r = Speed \<and> pr_category r = Fastest \<and> pr_sport r = a_sport a)"
    using speed_pass_shape [OF d] c by auto
next
  fix d assume "d \<in> set (filter (\<lambda>d. dr_category d = Some Cat_10km) (detectSpeedRecords a rs))"
  then have d: "d \<in> set (detectSpeedRecords a rs)" and c: "dr_category d = Some Cat_10km" by auto
  from d have "d \<in> set (detectRecords a rs)" by (simp add: detectRecords_passes)
  then show "d \<in> set (detectRecords a rs)
     \<and> (\<forall>r. dr_recordType d = Some (pr_type r) \<and> dr_category d = Some (pr_category r)
            \<and> pr_sport r = a_sport a
            \<longrightarrow> pr_type r = Speed \<and> pr_category r = Cat_10km \<and> pr_sport r = a_sport a)"
    using speed_pass_shape [OF d] c by auto
qed

lemma band_stable:
  assumes "(\<exists>r. List.find (\<lambda>r. pr_type r = Time \<and> pr_category r = fst e
                     \<and> pr_sport r = a_sport a) rs' = Some r
                \<and> pr_value r = a_totalTimeSeconds a)
         \<or> (List.find (\<lambda>r. pr_type r = Time \<and> pr_category r = fst e
                     \<and> pr_sport r = a_sport a) rs'
             = List.find (\<lambda>r. pr_type r = Time \<and> pr_category r = fst e
                     \<and> pr_sport r = a_sport a) rs
            \<and> timeRecordForBand a rs e = [])"
  shows "timeRecordForBand a rs' e = []"
  using assms by (auto simp: timeRecordForBand_def Let_def split: option.splits if_splits)

lemma band_rerun:
  assumes "e \<in> set DISTANCE_CATEGORIES"
  shows "timeRecordForBand a (freshRecords now a rs @ rs) e = []"
proof (rule band_stable, rule lookup_rerun)
  fix r assume "r \<in> set (freshRecords now a rs)"
    and "pr_type r = Time \<and> pr_category r = fst e \<and> pr_sport r = a_sport a"
  then show "pr_value r = a_totalTimeSeconds a" using fresh_value by blast
next
  fix d assume d: "d \<in> set (timeRecordForBand a rs e)"
  then have "d \<in> set (detectTimeRecords a rs)"
    using assms unfolding detectTimeRecords_def by auto
  then have "d \<in> set (detectRecords a rs)" by (simp add: detectRecords_passes)
  then show "d \<in> set (detectRecords a rs)
     \<and> (\<forall>r. dr_recordType d = Some (pr_type r) \<and> dr_category d = Some (pr_category r)
            \<and> pr_sport r = a_sport a
            \<longrightarrow> pr_type r = Time \<and> pr_category r = fst e \<and> pr_sport r = a_sport a)"
    using band_shape [OF d] by auto
qed

lemma time_rerun: "detectTimeRecords a (freshRecords now a rs @ rs) = []"
  unfolding detectTimeRecords_def by (simp add: band_rerun)

lemma elevation_stable:
  assumes "(\<exists>r. List.find (\<lambda>r. pr_type r = Elevation \<and> pr_category r = Highest
                     \<and> pr_sport r = a_sport a) rs' = Some r
                \<and> st_elevationGain (calculateStatistics a) = Some (pr_value r))
         \<or> (List.find (\<lambda>r. pr_type r = Elevation \<and> pr_category r = Highest
                     \<and> pr_sport r = a_sport a) rs'
             = List.find (\<lambda>r. pr_type r = Elevation \<and> pr_category r = Highest
                     \<and> pr_sport r = a_sport a) rs
            \<and> detectElevationRecords a rs = [])"
  shows "detectElevationRecords a rs' = []"
  using assms by (auto simp: detectElevationRecords_def Let_def split: option.splits if_splits)

lemma elevation_rerun: "detectElevationRecords a (freshRecords now a rs @ rs) = []"
proof (rule elevation_stable, rule lookup_rerun)
  fix r assume "r \<in> set (freshRecords now a rs)"
    and "pr_type r = Elevation \<and> pr_category r = Highest \<and> pr_sport r = a_sport a"
  then show "st_elevationGain (calculateStatistics a) = Some (pr_value r)"
    using fresh_value by blast
next
  fix d assume d: "d \<in> set (detectElevationRecords a rs)"
  then have "d \<in> set (detectRecords a rs)" by (simp add: detectRecords_passes)
  then show "d \<in> set (detectRecords a rs)
     \<and> (\<forall>r. dr_recordType d = Some (pr_type r) \<and> dr_category d = Some (pr_category r)
            \<and> pr_sport r = a_sport a
            \<longrightarrow> pr_type r = Elevation \<and> pr_category r = Highest \<and> pr_sport r = a_sport a)"
    using elevation_pass_shape [OF d] by auto
qed

lemma calorie_stable:
  assumes "(\<exists>r. List.find (\<lambda>r. pr_type r = Calories \<and> pr_sport r = a_sport a) rs' = Some r
                \<and> a_calories a = Some (pr_value r))
         \<or> (List.find (\<lambda>r. pr_type r = Calories \<and> pr_sport r = a_sport a) rs'
             = List.find (\<lambda>r. pr_type r = Calories \<and> pr_sport r = a_sport a) rs
            \<and> detectCalorieRecords a rs = [])"
  shows "detectCalorieRecords a rs' = []"
  using assms by (auto simp: detectCalorieRecords_def Let_def split: option.splits if_splits)

lemma calorie_rerun: "detectCalorieRecords a (freshRecords now a rs @ rs) = []"
proof (rule calorie_stable, rule lookup_rerun)
  fix r assume "r \<in> set (freshRecords now a rs)"
    and "pr_type r = Calories \<and> pr_sport r = a_sport a"
  then show "a_calories a = Some (pr_value r)" using fresh_value by blast
next
  fix d assume d: "d \<in> set (detectCalorieRecords a rs)"
  then have "d \<in> set (detectRecords a rs)" by (simp add: detectRecords_passes)
  then show "d \<in> set (detectRecords a rs)
     \<and> (\<forall>r. dr_recordType d = Some (pr_type r) \<and> dr_category d = Some (pr_category r)
            \<and> pr_sport r = a_sport a
            \<longrightarrow> pr_type r = Calories \<and> pr_sport r = a_sport a)"
    using calorie_pass_shape [OF d] by auto
qed


lemma beaten_first_run:
  "detectRecords (runWithoutTrackpoints 8000 3000) [storedRecord Distance Longest 5000] =
     [\<lparr>dr_isRecord = True, dr_recordType = Some Distance, dr_category = Some Longest,
       dr_value = Some 8000, dr_previousValue = Some 5000, dr_improvement = Some 3000\<rparr>,
      \<lparr>dr_isRecord = True, dr_recordType = Some Speed, dr_category = Some Fastest,
       dr_value = Some 0, dr_previousValue = None, dr_improvement = Some 0\<rparr>,
      \<lparr>dr_isRecord = True, dr_recordType = Some Calories, dr_category = Some Longest,
       dr_value = Some 650, dr_previousValue = None, dr_improvement = Some 650\<rparr>]"
proof -
  let ?a = "runWithoutTrackpoints 8000 3000"
  let ?rs = "[storedRecord Distance Longest 5000]"
  have 1: "detectDistanceRecords ?a ?rs =
     [\<lparr>dr_isRecord = True, dr_recordType = Some Distance, dr_category = Some Longest,
       dr_value = Some 8000, dr_previousValue = Some 5000, dr_improvement = Some 3000\<rparr>]"
    by (simp add: detectDistanceRecords_def runWithoutTrackpoints_def storedRecord_def)
  have 2: "detectSpeedRecords ?a ?rs =
     [\<lparr>dr_isRecord = True, dr_recordType = Some Speed, dr_category = Some Fastest,
       dr_value = Some 0, dr_previousValue = None, dr_improvement = Some 0\<rparr>]"
    by (simp add: detectSpeedRecords_def stats_of_run storedRecord_def)
       (simp add: runWithoutTrackpoints_def)
  have 3: "detectTimeRecords ?a ?rs = []"
    by (simp add: detectTimeRecords_def DISTANCE_CATEGORIES_def timeRecordForBand_def
        runWithoutTrackpoints_def)
  have 4: "detectElevationRecords ?a ?rs = []"
    by (simp add: detectElevationRecords_def stats_of_run)
  have 5: "detectCalorieRecords ?a ?rs =
     [\<lparr>dr_isRecord = True, dr_recordType = Some Calories, dr_category = Some Longest,
       dr_value = Some 650, dr_previousValue = None, dr_improvement = Some 650\<rparr>]"
    by (simp add: detectCalorieRecords_def runWithoutTrackpoints_def storedRecord_def)
  show ?thesis by (simp add: detectRecords_passes 1 2 3 4 5)
qed

lemma beaten_fresh:
  "freshRecords 800000000 (runWithoutTrackpoints 8000 3000) [storedRecord Distance Longest 5000] =
     [createdRecord Distance Longest 8000 (Some 5000) (Some 3000),
      createdRecord Speed Fastest 0 None (Some 0),
      createdRecord Calories Longest 650 None (Some 650)]"
  unfolding freshRecords_def beaten_first_run
  by (simp add: createRecordFromDetection_def createdRecord_def runWithoutTrackpoints_def)

lemma beaten_second_run:
  "detectRecords (runWithoutTrackpoints 8000 3000)
     ([storedRecord Distance Longest 5000]
      @ freshRecords 800000000 (runWithoutTrackpoints 8000 3000) [storedRecord Distance Longest 5000]) =
     [\<lparr>dr_isRecord = True, dr_recordType = Some Distance, dr_category = Some Longest,
       dr_value = Some 8000, dr_previousValue = Some 5000, dr_improvement = Some 3000\<rparr>]"
proof -
  let ?a = "runWithoutTrackpoints 8000 3000"
  let ?rs = "[storedRecord Distance Longest 5000,
      createdRecord Distance Longest 8000 (Some 5000) (Some 3000),
      createdRecord Speed Fastest 0 None (Some 0),
      createdRecord Calories Longest 650 None (Some 650)]"
  have 1: "detectDistanceRecords ?a ?rs =
     [\<lparr>dr_isRecord = True, dr_recordType = Some Distance, dr_category = Some Longest,
       dr_value = Some 8000, dr_previousValue = Some 5000, dr_improvement = Some 3000\<rparr>]"
    by (simp add: detectDistanceRecords_def runWithoutTrackpoints_def storedRecord_def
        createdRecord_def)
  have 2: "detectSpeedRecords ?a ?rs = []"
    by (simp add: detectSpeedRecords_def stats_of_run storedRecord_def createdRecord_def)
       (simp add: runWithoutTrackpoints_def)
  have 3: "detectTimeRecords ?a ?rs = []"
    by (simp add: detectTimeRecords_def DISTANCE_CATEGORIES_def timeRecordForBand_def
        runWithoutTrackpoints_def)
  have 4: "detectElevationRecords ?a ?rs = []"
    by (simp add: detectElevationRecords_def stats_of_run)
  have 5: "detectCalorieRecords ?a ?rs = []"
    by (simp add: detectCalorieRecords_def runWithoutTrackpoints_def storedRecord_def
        createdRecord_def)
  show ?thesis unfolding beaten_fresh by (simp add: detectRecords_passes 1 2 3 4 5)
qed

text \<open>
  Put in front of the existing records, so that each lookup meets them first, the records
  created from a run leave nothing to detect in a second run on the same activity.
\<close>

lemma detection_rerun_fresh_first:
  "detectRecords a (freshRecords now a rs @ rs) = []
   \<and> length (freshRecords now a rs) = length (detectRecords a rs)"
  by (simp add: detectRecords_passes distance_rerun speed_rerun time_rerun elevation_rerun
      calorie_rerun all_detections_materialised)

text \<open>
  Claim C3: when the existing records are extended with the records created from a detection
  run, a second run on the same activity detects no triple of the first run again. The store
  keeps one record per activity, type and category, beaten records included, and reads the
  records of a sport in the order of their ids, while every pass of the detection takes the
  first stored record of a triple. With the longest distance 5000 m of the activity \<open>a0\<close>
  stored, the run \<open>a1\<close> of 8000 m is detected as the longest distance, and its record is stored
  behind the one of \<open>a0\<close>; the second run meets the record of 5000 m first and detects the
  longest distance of 8000 m again, with the previous value 5000.
\<close>

theorem detection_rerun_detects_again:
  "detectRecords (runWithoutTrackpoints 8000 3000) [storedRecord Distance Longest 5000] =
     [\<lparr>dr_isRecord = True, dr_recordType = Some Distance, dr_category = Some Longest,
       dr_value = Some 8000, dr_previousValue = Some 5000, dr_improvement = Some 3000\<rparr>,
      \<lparr>dr_isRecord = True, dr_recordType = Some Speed, dr_category = Some Fastest,
       dr_value = Some 0, dr_previousValue = None, dr_improvement = Some 0\<rparr>,
      \<lparr>dr_isRecord = True, dr_recordType = Some Calories, dr_category = Some Longest,
       dr_value = Some 650, dr_previousValue = None, dr_improvement = Some 650\<rparr>]
   \<and> detectRecords (runWithoutTrackpoints 8000 3000)
       ([storedRecord Distance Longest 5000]
        @ freshRecords 800000000 (runWithoutTrackpoints 8000 3000)
            [storedRecord Distance Longest 5000]) =
     [\<lparr>dr_isRecord = True, dr_recordType = Some Distance, dr_category = Some Longest,
       dr_value = Some 8000, dr_previousValue = Some 5000, dr_improvement = Some 3000\<rparr>]"
  using beaten_first_run beaten_second_run by blast

end
